theory Spec2Isabelle
  imports Complex_Main "HOL-Library.Multiset"
begin

section \<open>JavaScript numbers\<close>

text \<open>
  A JavaScript \<^verbatim>\<open>number\<close> is a finite value, one of the two infinities, or NaN.
  Finite arithmetic is exact here (no rounding, no overflow) and the two zeros are not
  told apart: a zero divisor is \<^verbatim>\<open>+0\<close>. The special values follow IEEE 754, which is
  what decides \<^verbatim>\<open>0 / 0\<close>, \<^verbatim>\<open>Math.max(0, NaN)\<close> and every comparison with NaN.
\<close>

datatype jsnum = Fin real | PInf | NInf | NaN

fun is_fin :: "jsnum \<Rightarrow> bool" where
  "is_fin (Fin _) = True"
| "is_fin _ = False"

fun fin_val :: "jsnum \<Rightarrow> real" where
  "fin_val (Fin r) = r"
| "fin_val _ = 0"

fun isNaN :: "jsnum \<Rightarrow> bool" where
  "isNaN NaN = True"
| "isNaN _ = False"

fun jneg :: "jsnum \<Rightarrow> jsnum" where
  "jneg (Fin a) = Fin (- a)"
| "jneg PInf = NInf"
| "jneg NInf = PInf"
| "jneg NaN = NaN"

fun jadd :: "jsnum \<Rightarrow> jsnum \<Rightarrow> jsnum" where
  "jadd (Fin a) (Fin b) = Fin (a + b)"
| "jadd NaN _ = NaN"
| "jadd _ NaN = NaN"
| "jadd PInf NInf = NaN"
| "jadd NInf PInf = NaN"
| "jadd PInf _ = PInf"
| "jadd _ PInf = PInf"
| "jadd NInf _ = NInf"
| "jadd _ NInf = NInf"

definition jsub :: "jsnum \<Rightarrow> jsnum \<Rightarrow> jsnum" where
  "jsub a b = jadd a (jneg b)"

fun jmul :: "jsnum \<Rightarrow> jsnum \<Rightarrow> jsnum" where
  "jmul (Fin a) (Fin b) = Fin (a * b)"
| "jmul NaN _ = NaN"
| "jmul _ NaN = NaN"
| "jmul (Fin a) PInf = (if a = 0 then NaN else if 0 < a then PInf else NInf)"
| "jmul (Fin a) NInf = (if a = 0 then NaN else if 0 < a then NInf else PInf)"
| "jmul PInf (Fin b) = (if b = 0 then NaN else if 0 < b then PInf else NInf)"
| "jmul NInf (Fin b) = (if b = 0 then NaN else if 0 < b then NInf else PInf)"
| "jmul PInf PInf = PInf"
| "jmul PInf NInf = NInf"
| "jmul NInf PInf = NInf"
| "jmul NInf NInf = PInf"

fun jdiv :: "jsnum \<Rightarrow> jsnum \<Rightarrow> jsnum" where
  "jdiv (Fin a) (Fin b) =
     (if b = 0 then (if a = 0 then NaN else if 0 < a then PInf else NInf)
      else Fin (a / b))"
| "jdiv NaN _ = NaN"
| "jdiv _ NaN = NaN"
| "jdiv (Fin a) PInf = Fin 0"
| "jdiv (Fin a) NInf = Fin 0"
| "jdiv PInf (Fin b) = (if 0 \<le> b then PInf else NInf)"
| "jdiv NInf (Fin b) = (if 0 \<le> b then NInf else PInf)"
| "jdiv PInf PInf = NaN"
| "jdiv PInf NInf = NaN"
| "jdiv NInf PInf = NaN"
| "jdiv NInf NInf = NaN"

text \<open>\<^verbatim>\<open>Math.max(a, b)\<close> and \<^verbatim>\<open>Math.min(a, b)\<close>: NaN as soon as one argument is NaN.\<close>

fun jmax :: "jsnum \<Rightarrow> jsnum \<Rightarrow> jsnum" where
  "jmax (Fin a) (Fin b) = Fin (max a b)"
| "jmax NaN _ = NaN"
| "jmax _ NaN = NaN"
| "jmax PInf _ = PInf"
| "jmax _ PInf = PInf"
| "jmax NInf b = b"
| "jmax a NInf = a"

fun jmin :: "jsnum \<Rightarrow> jsnum \<Rightarrow> jsnum" where
  "jmin (Fin a) (Fin b) = Fin (min a b)"
| "jmin NaN _ = NaN"
| "jmin _ NaN = NaN"
| "jmin NInf _ = NInf"
| "jmin _ NInf = NInf"
| "jmin PInf b = b"
| "jmin a PInf = a"

text \<open>\<^verbatim>\<open>Math.max(...values)\<close> and \<^verbatim>\<open>Math.min(...values)\<close>; on no argument they are
  \<^verbatim>\<open>-Infinity\<close> and \<^verbatim>\<open>Infinity\<close>.\<close>

definition Math_max :: "jsnum list \<Rightarrow> jsnum" where
  "Math_max vs = foldl jmax NInf vs"

definition Math_min :: "jsnum list \<Rightarrow> jsnum" where
  "Math_min vs = foldl jmin PInf vs"

text \<open>The comparisons \<^verbatim>\<open>a > b\<close> and \<^verbatim>\<open>a < b\<close>: false whenever NaN is involved.\<close>

fun jgt :: "jsnum \<Rightarrow> jsnum \<Rightarrow> bool" where
  "jgt (Fin a) (Fin b) = (b < a)"
| "jgt NaN _ = False"
| "jgt _ NaN = False"
| "jgt PInf PInf = False"
| "jgt PInf _ = True"
| "jgt _ PInf = False"
| "jgt NInf _ = False"
| "jgt _ NInf = True"

definition jlt :: "jsnum \<Rightarrow> jsnum \<Rightarrow> bool" where
  "jlt a b = jgt b a"

text \<open>\<^verbatim>\<open>xs.slice(-n)\<close>: the last \<open>n\<close> elements, all of them when there are fewer.\<close>

definition slice_last :: "nat \<Rightarrow> 'a list \<Rightarrow> 'a list" where
  "slice_last n xs = drop (length xs - n) xs"

datatype error = Error string | TypeError string

section \<open>The network behind a model (tfjs sequential model)\<close>

datatype activation = Relu | Sigmoid | Linear


text \<open>A layer with its current parameters: a dense layer is the list of its units, each
  a kernel row with its bias; a batch normalisation has, for each feature, its scale,
  offset, moving mean and moving variance.\<close>

datatype layer =
    DenseL "(real list \<times> real) list" activation
  | BatchNormL "(real \<times> real \<times> real \<times> real) list"
  | DropoutL real


definition sigmoid :: "real \<Rightarrow> real" where
  "sigmoid x = 1 / (1 + exp (- x))"

fun activate :: "activation \<Rightarrow> real \<Rightarrow> real" where
  "activate Relu x = max 0 x"
| "activate Sigmoid x = sigmoid x"
| "activate Linear x = x"

definition dot :: "real list \<Rightarrow> real list \<Rightarrow> real" where
  "dot w x = sum_list (map2 (*) w x)"

text \<open>Inference: a dense layer applies its activation to the weighted sums, batch
  normalisation uses the moving statistics (epsilon 0.001, the library's default), and
  dropout is the identity.\<close>

fun apply_layer :: "layer \<Rightarrow> real list \<Rightarrow> real list" where
  "apply_layer (DenseL units a) x = map (\<lambda>(w, bi). activate a (dot w x + bi)) units"
| "apply_layer (BatchNormL ps) x =
     map2 (\<lambda>xi (gi, bi, mi, vi). (xi - mi) / sqrt (vi + 0.001) * gi + bi) x ps"
| "apply_layer (DropoutL r) x = x"

definition forward :: "layer list \<Rightarrow> real list \<Rightarrow> real list" where
  "forward net x = foldl (\<lambda>h l. apply_layer l h) x net"

record LayersModel =
  layers :: "layer list"
  optimizer :: "real option"

text \<open>
  \<^verbatim>\<open>this.model.predict(inputTensor)\<close> followed by \<^verbatim>\<open>dataSync()\<close>. On finite features it is
  the forward pass. A feature that is not finite is outside what the forward pass over
  the reals describes; IEEE arithmetic carries a NaN through every layer, and the model
  returns a vector of NaN of the output length there.
\<close>

definition model_predict :: "LayersModel \<Rightarrow> jsnum list \<Rightarrow> jsnum list" where
  "model_predict m xs =
     (if list_all is_fin xs then map Fin (forward (layers m) (map fin_val xs))
      else map (\<lambda>_. NaN) (forward (layers m) (map fin_val xs)))"

section \<open>BaseModel\<close>

record ModelConfig =
  modelName :: string
  version :: string
  inputShape :: "nat list"
  outputShape :: "nat list"
  learningRate :: "real option"
  epochs :: "nat option"
  batchSize :: "nat option"

record PredictionResult =
  prediction :: "jsnum list"
  confidence :: jsnum
  modelVersion :: string
  timestamp :: int

record BaseModel =
  model :: "LayersModel option"
  config :: ModelConfig
  isLoaded :: bool

text \<open>The constructor: no network yet, not loaded.\<close>

definition new_BaseModel :: "ModelConfig \<Rightarrow> BaseModel" where
  "new_BaseModel c = \<lparr>model = None, config = c, isLoaded = False\<rparr>"

text \<open>\<^verbatim>\<open>this.config.learningRate || d\<close>: the default also replaces a rate of 0.\<close>

definition rate_or :: "real option \<Rightarrow> real \<Rightarrow> real" where
  "rate_or r d = (case r of None \<Rightarrow> d | Some x \<Rightarrow> if x = 0 then d else x)"

definition compile :: "real \<Rightarrow> LayersModel \<Rightarrow> LayersModel" where
  "compile rate m = m\<lparr>optimizer := Some rate\<rparr>"

text \<open>All three models return \<^verbatim>\<open>Array.from(prediction.dataSync())\<close>.\<close>

definition postprocessOutput :: "jsnum list \<Rightarrow> jsnum list" where
  "postprocessOutput values = values"

definition calculateConfidence :: "jsnum list \<Rightarrow> jsnum" where
  "calculateConfidence values =
     (let mx = Math_max values;
          mn = Math_min values;
          range = jsub mx mn
      in jmax (Fin 0) (jmin (Fin 1) (jsub (Fin 1) (jdiv range mx))))"

text \<open>
  \<^verbatim>\<open>BaseModel.predict\<close>. The abstract \<^verbatim>\<open>preprocessInput\<close> is a parameter; it returns the
  features together with the input record as it leaves it (the maintenance model writes
  defaults into the caller's record), or the error it throws. \<open>now\<close> is the reading of
  the clock for the time stamp.
\<close>

definition predict ::
  "('i \<Rightarrow> error + jsnum list \<times> 'i) \<Rightarrow> int \<Rightarrow> BaseModel \<Rightarrow> 'i \<Rightarrow> error + PredictionResult \<times> 'i" where
  "predict preprocessInput now this inputData =
     (case model this of
        None \<Rightarrow> Inl (Error ''Model not loaded'')
      | Some net \<Rightarrow>
          if \<not> isLoaded this then Inl (Error ''Model not loaded'')
          else (case preprocessInput inputData of
                  Inl e \<Rightarrow> Inl e
                | Inr (processedInput, inputData') \<Rightarrow>
                    let values = model_predict net processedInput;
                        result = postprocessOutput values;
                        conf = calculateConfidence values
                    in Inr (\<lparr>prediction = result, confidence = conf,
                              modelVersion = version (config this), timestamp = now\<rparr>,
                            inputData')))"

section \<open>The three models: configuration and architecture\<close>

definition route_config :: ModelConfig where
  "route_config = \<lparr>modelName = ''route-optimizer'', version = ''1.0.0'',
     inputShape = [15], outputShape = [4],
     learningRate = Some 0.001, epochs = Some 150, batchSize = Some 32\<rparr>"

definition fuel_config :: ModelConfig where
  "fuel_config = \<lparr>modelName = ''fuel-predictor'', version = ''1.0.0'',
     inputShape = [20], outputShape = [3],
     learningRate = Some 0.0005, epochs = Some 200, batchSize = Some 64\<rparr>"

definition maintenance_config :: ModelConfig where
  "maintenance_config = \<lparr>modelName = ''maintenance-forecaster'', version = ''1.0.0'',
     inputShape = [25], outputShape = [5],
     learningRate = Some 0.0008, epochs = Some 250, batchSize = Some 48\<rparr>"

text \<open>
  \<^verbatim>\<open>buildModel\<close> draws the kernels at random (\<^verbatim>\<open>glorotUniform\<close>); \<open>kern i\<close> is the
  kernel drawn for the \<open>i\<close>-th dense layer, one row for each unit. Biases start at zero,
  and a batch normalisation at scale 1, offset 0, mean 0 and variance 1.
\<close>

definition fresh_dense :: "real list list \<Rightarrow> nat \<Rightarrow> activation \<Rightarrow> layer" where
  "fresh_dense rows units a = DenseL (map (\<lambda>i. (rows ! i, 0)) [0..<units]) a"

definition fresh_batchNorm :: "nat \<Rightarrow> layer" where
  "fresh_batchNorm n = BatchNormL (replicate n (1, 0, 0, 1))"

definition route_buildModel :: "(nat \<Rightarrow> real list list) \<Rightarrow> LayersModel" where
  "route_buildModel kern =
     compile (rate_or (learningRate route_config) 0.001)
       \<lparr>layers = [fresh_dense (kern 0) 64 Relu,
                  DropoutL 0.2,
                  fresh_dense (kern 1) 32 Relu,
                  DropoutL 0.1,
                  fresh_dense (kern 2) 16 Relu,
                  fresh_dense (kern 3) 4 Sigmoid],
        optimizer = None\<rparr>"

definition fuel_buildModel :: "(nat \<Rightarrow> real list list) \<Rightarrow> LayersModel" where
  "fuel_buildModel kern =
     compile (rate_or (learningRate fuel_config) 0.0005)
       \<lparr>layers = [fresh_dense (kern 0) 128 Relu,
                  fresh_batchNorm 128,
                  DropoutL 0.3,
                  fresh_dense (kern 1) 64 Relu,
                  DropoutL 0.2,
                  fresh_dense (kern 2) 32 Relu,
                  DropoutL 0.1,
                  fresh_dense (kern 3) 16 Relu,
                  fresh_dense (kern 4) 3 Linear],
        optimizer = None\<rparr>"

definition maintenance_buildModel :: "(nat \<Rightarrow> real list list) \<Rightarrow> LayersModel" where
  "maintenance_buildModel kern =
     compile (rate_or (learningRate maintenance_config) 0.0008)
       \<lparr>layers = [fresh_dense (kern 0) 128 Relu,
                  fresh_batchNorm 128,
                  DropoutL 0.3,
                  fresh_dense (kern 1) 64 Relu,
                  DropoutL 0.25,
                  fresh_dense (kern 2) 32 Relu,
                  DropoutL 0.2,
                  fresh_dense (kern 3) 16 Relu,
                  fresh_dense (kern 4) 5 Sigmoid],
        optimizer = None\<rparr>"





section \<open>BaseModel: initialize and train\<close>

text \<open>What \<^verbatim>\<open>initialize\<close> finds at the model path: no \<^verbatim>\<open>model.json\<close>, one that
  \<^verbatim>\<open>tf.loadLayersModel\<close> fails on, or a stored network.\<close>

datatype artifact = NoArtifact | Unreadable error | Stored "layer list"

text \<open>\<^verbatim>\<open>BaseModel.initialize\<close>; \<open>built\<close> is what the abstract \<^verbatim>\<open>buildModel\<close> returns.\<close>

definition initialize :: "LayersModel \<Rightarrow> artifact \<Rightarrow> BaseModel \<Rightarrow> error + BaseModel" where
  "initialize built found this =
     (let rate = rate_or (learningRate (config this)) 0.001
      in case found of
           Stored ls \<Rightarrow>
             Inr (this\<lparr>model := Some (compile rate \<lparr>layers = ls, optimizer = None\<rparr>),
                        isLoaded := True\<rparr>)
         | Unreadable e \<Rightarrow> Inl e
         | NoArtifact \<Rightarrow>
             Inr (this\<lparr>model := Some (compile rate built), isLoaded := True\<rparr>))"

definition ensureModelCompiled :: "BaseModel \<Rightarrow> error + BaseModel" where
  "ensureModelCompiled this =
     (case model this of
        None \<Rightarrow> Inl (Error ''Model not initialized'')
      | Some m \<Rightarrow>
          if optimizer m = None
          then Inr (this\<lparr>model := Some (compile (rate_or (learningRate (config this)) 0.001) m)\<rparr>)
          else Inr this)"

record TrainingData =
  inputs :: "real list list"
  outputs :: "real list list"
  validationSplit :: "real option"

text \<open>
  \<^verbatim>\<open>BaseModel.train\<close>. The library's \<^verbatim>\<open>fit\<close> (with the tensor conversion before it) is
  the parameter \<open>fit\<close>: it returns the trained network and the loss history, or the
  error it throws. \<open>save\<close> is the error of \<^verbatim>\<open>saveModel\<close>, if it fails. The model object
  is returned as the call leaves it, also when the call throws.
\<close>

definition train ::
  "(LayersModel \<Rightarrow> TrainingData \<Rightarrow> error + LayersModel \<times> real list) \<Rightarrow> error option \<Rightarrow>
   TrainingData \<Rightarrow> BaseModel \<Rightarrow> BaseModel \<times> (error + real list)" where
  "train fit save trainingData this =
     (if model this = None then (this, Inl (Error ''Model not initialized''))
      else (case ensureModelCompiled this of
              Inl e \<Rightarrow> (this, Inl e)
            | Inr this1 \<Rightarrow>
                (case model this1 of
                   None \<Rightarrow> (this1, Inl (Error ''Model not initialized''))
                 | Some m \<Rightarrow>
                     (case fit m trainingData of
                        Inl e \<Rightarrow> (this1, Inl e)
                      | Inr (trained, history) \<Rightarrow>
                          let this2 = this1\<lparr>model := Some trained\<rparr>
                          in (case save of
                                Some e \<Rightarrow> (this2, Inl e)
                              | None \<Rightarrow> (this2, Inr history))))))"


section \<open>MaintenanceForecasterModel\<close>

text \<open>
  The input record follows the interface \<^verbatim>\<open>MaintenanceInput\<close>. A field that the code tests
  at run time carries the cases the test tells apart: \<open>None\<close> is a value that fails the
  test (a missing object, a value that is not an array). Every other field has its
  declared type; a \<^verbatim>\<open>Date\<close> is a valid date, given in milliseconds since the epoch, on
  which \<^verbatim>\<open>validateDate\<close> returns its argument.
\<close>

record Ship =
  ship_id :: string
  ship_type :: string
  age :: real
  ship_length :: real
  enginePower :: real
  hoursOperated :: real

record MaintenanceEvent =
  ev_date :: int
  ev_type :: string
  ev_cost :: real
  ev_downtime :: real
  ev_description :: string

record OperatingConditions =
  averageLoad :: real
  oc_temperature :: real
  oc_vibration :: real
  oc_pressure :: real

record Component =
  comp_type :: string
  lastMaintenanceDate :: int
  maintenanceHistory :: "MaintenanceEvent list option"
  operatingConditions :: OperatingConditions

record EnvironmentalConditions =
  saltWaterExposure :: real
  temperatureVariation :: real
  roughSeaExposure :: real

record Usage =
  dailyOperatingHours :: real
  voyagesPerMonth :: real
  averageVoyageDistance :: real
  environmentalConditions :: EnvironmentalConditions

record LastReadings =
  lr_temperature :: real
  lr_vibration :: real
  lr_pressure :: real
  lr_efficiency :: real

record Sensors =
  s_temperature :: "jsnum list option"
  s_vibration :: "jsnum list option"
  s_pressure :: "jsnum list option"
  s_efficiency :: "jsnum list option"
  lastReadings :: "LastReadings option"

record MaintenanceInput =
  ship :: "Ship option"
  component :: "Component option"
  usage :: "Usage option"
  sensors :: "Sensors option"

text \<open>A \<^verbatim>\<open>Date\<close> that the code creates: \<^verbatim>\<open>new Date(t)\<close> cuts \<open>t\<close> to whole milliseconds
  and is an invalid date when \<open>t\<close> is not finite. The range limit of \<^verbatim>\<open>Date\<close> is not
  modelled.\<close>

datatype jsdate = DateMs int | InvalidDate

definition trunc :: "real \<Rightarrow> int" where
  "trunc r = (if 0 \<le> r then \<lfloor>r\<rfloor> else \<lceil>r\<rceil>)"

fun new_Date :: "jsnum \<Rightarrow> jsdate" where
  "new_Date (Fin r) = DateMs (trunc r)"
| "new_Date _ = InvalidDate"

fun getTime :: "jsdate \<Rightarrow> jsnum" where
  "getTime (DateMs t) = Fin (real_of_int t)"
| "getTime InvalidDate = NaN"

definition day_ms :: int where
  "day_ms = 1000 * 60 * 60 * 24"

definition encodeShipType :: "string \<Rightarrow> real" where
  "encodeShipType t =
     (if t = ''cargo'' then 0.2 else if t = ''tanker'' then 0.4
      else if t = ''container'' then 0.6 else if t = ''bulk'' then 0.8
      else if t = ''passenger'' then 1.0 else 0.5)"

definition encodeComponentType :: "string \<Rightarrow> real" where
  "encodeComponentType t =
     (if t = ''engine'' then 1.0 else if t = ''propeller'' then 0.8
      else if t = ''hull'' then 0.6 else if t = ''navigation'' then 0.4
      else if t = ''electrical'' then 0.3 else if t = ''hydraulic'' then 0.2
      else if t = ''hvac'' then 0.1 else 0.5)"

text \<open>The loop of \<^verbatim>\<open>calculateAverageMaintenanceInterval\<close>: whole days between
  consecutive dates.\<close>

fun intervals :: "int list \<Rightarrow> int list" where
  "intervals (a # b # rest) = ((b - a) div day_ms) # intervals (b # rest)"
| "intervals _ = []"

definition calculateAverageMaintenanceInterval :: "MaintenanceEvent list \<Rightarrow> real" where
  "calculateAverageMaintenanceInterval history =
     (if length history < 2 then 365
      else real_of_int (sum_list (intervals (map ev_date history)))
             / real (length (intervals (map ev_date history))))"

definition calculateMaintenanceCostTrend :: "MaintenanceEvent list \<Rightarrow> jsnum" where
  "calculateMaintenanceCostTrend history =
     (if length history < 3 then Fin 0
      else
        let recentCosts = map ev_cost (slice_last 3 history);
            earlierCosts = map ev_cost (take 3 history);
            recentAvg = sum_list recentCosts / real (length recentCosts);
            earlierAvg = sum_list earlierCosts / real (length earlierCosts)
        in jmin (Fin 1) (jmax (Fin (- 1)) (jdiv (Fin (recentAvg - earlierAvg)) (Fin earlierAvg))))"

definition jsum :: "jsnum list \<Rightarrow> jsnum" where
  "jsum vs = foldl jadd (Fin 0) vs"

definition calculateTrend :: "jsnum list \<Rightarrow> jsnum" where
  "calculateTrend vs =
     (let validValues = filter (\<lambda>v. \<not> isNaN v) vs
      in if length validValues < 3 then Fin 0
         else
           let recent = slice_last 5 validValues;
               earlier = take 5 validValues
           in if length recent = 0 \<or> length earlier = 0 then Fin 0
              else
                let recentAvg = jdiv (jsum recent) (Fin (real (length recent)));
                    earlierAvg = jdiv (jsum earlier) (Fin (real (length earlier)))
                in if earlierAvg = Fin 0 then Fin 0
                   else jmin (Fin 1) (jmax (Fin (- 1)) (jdiv (jsub recentAvg earlierAvg) earlierAvg)))"

definition array_or_empty :: "'a list option \<Rightarrow> 'a list" where
  "array_or_empty a = (case a of Some xs \<Rightarrow> xs | None \<Rightarrow> [])"

definition calculateSensorTrends :: "Sensors \<Rightarrow> jsnum \<times> jsnum" where
  "calculateSensorTrends se =
     (calculateTrend (array_or_empty (s_temperature se)),
      calculateTrend (array_or_empty (s_vibration se)))"

definition default_lastReadings :: LastReadings where
  "default_lastReadings =
     \<lparr>lr_temperature = 0, lr_vibration = 0, lr_pressure = 0, lr_efficiency = 1\<rparr>"

text \<open>
  \<^verbatim>\<open>preprocessInput\<close> of the maintenance model. It assigns defaults to fields of the
  \<^verbatim>\<open>component\<close> and \<^verbatim>\<open>sensors\<close> objects of its argument, so the record is returned as
  the call leaves it, next to the features. The four errors are thrown before any
  assignment. \<open>now\<close> is the reading of \<^verbatim>\<open>Date.now()\<close>. The average interval that the method
  computes is not used in the features and is left out.
\<close>

definition maintenance_preprocessInput ::
  "int \<Rightarrow> MaintenanceInput \<Rightarrow> error + jsnum list \<times> MaintenanceInput" where
  "maintenance_preprocessInput now data =
     (case ship data of
        None \<Rightarrow> Inl (Error ''Invalid input: ship data is required'')
      | Some sh \<Rightarrow>
     (case component data of
        None \<Rightarrow> Inl (Error ''Invalid input: component data is required'')
      | Some cmpt0 \<Rightarrow>
     (case usage data of
        None \<Rightarrow> Inl (Error ''Invalid input: usage data is required'')
      | Some us \<Rightarrow>
     (case sensors data of
        None \<Rightarrow> Inl (Error ''Invalid input: sensors data is required'')
      | Some se0 \<Rightarrow>
        let cmpt = (if maintenanceHistory cmpt0 = None
                    then cmpt0\<lparr>maintenanceHistory := Some []\<rparr> else cmpt0);
            se1 = (if s_temperature se0 = None then se0\<lparr>s_temperature := Some []\<rparr> else se0);
            se2 = (if s_vibration se1 = None then se1\<lparr>s_vibration := Some []\<rparr> else se1);
            se3 = (if s_pressure se2 = None then se2\<lparr>s_pressure := Some []\<rparr> else se2);
            se4 = (if s_efficiency se3 = None then se3\<lparr>s_efficiency := Some []\<rparr> else se3);
            se = (if lastReadings se4 = None
                  then se4\<lparr>lastReadings := Some default_lastReadings\<rparr> else se4);
            data' = data\<lparr>component := Some cmpt, sensors := Some se\<rparr>;
            history = array_or_empty (maintenanceHistory cmpt);
            readings = (case lastReadings se of Some r \<Rightarrow> r | None \<Rightarrow> default_lastReadings);
            daysSinceLastMaintenance = (now - lastMaintenanceDate cmpt) div day_ms;
            sensorTrends = calculateSensorTrends se;
            oc = operatingConditions cmpt;
            ec = environmentalConditions us;
            features =
              [Fin (age sh / 50),
               Fin (ship_length sh / 400),
               Fin (enginePower sh / 50000),
               Fin (hoursOperated sh / 100000),
               Fin (encodeShipType (ship_type sh)),
               Fin (encodeComponentType (comp_type cmpt)),
               Fin (real_of_int daysSinceLastMaintenance / 365),
               Fin (real (length history) / 50),
               calculateMaintenanceCostTrend history,
               Fin (averageLoad oc),
               Fin (oc_temperature oc / 100),
               Fin (oc_vibration oc / 10),
               Fin (oc_pressure oc / 50),
               Fin (dailyOperatingHours us / 24),
               Fin (voyagesPerMonth us / 30),
               Fin (averageVoyageDistance us / 10000),
               Fin (saltWaterExposure ec),
               Fin (temperatureVariation ec / 50),
               Fin (roughSeaExposure ec),
               Fin (lr_temperature readings / 100),
               Fin (lr_vibration readings / 10),
               Fin (lr_pressure readings / 50),
               Fin (lr_efficiency readings),
               fst sensorTrends,
               snd sensorTrends]
        in Inr (features, data')))))"

datatype maintenance_type = Preventive | Corrective | Emergency

record Factors =
  ageScore :: real
  usageScore :: real
  conditionScore :: real
  historyScore :: real
  sensorScore :: real

record Schedule =
  sch_date :: jsdate
  sch_type :: string
  sch_cost :: jsnum
  sch_risk :: jsnum

record MaintenancePrediction =
  riskScore :: jsnum
  predictedFailureDate :: "jsdate option"
  recommendedMaintenanceDate :: jsdate
  maintenanceType :: maintenance_type
  estimatedCost :: jsnum
  estimatedDowntime :: jsnum
  mp_confidence :: jsnum
  factors :: Factors
  recommendations :: "string list"
  alternativeSchedules :: "Schedule list"

fun pick :: "maintenance_type \<Rightarrow> real \<times> real \<times> real \<Rightarrow> real" where
  "pick Preventive (p, c, e) = p"
| "pick Corrective (p, c, e) = c"
| "pick Emergency (p, c, e) = e"

definition baseCosts :: "string \<Rightarrow> (real \<times> real \<times> real) option" where
  "baseCosts t =
     (if t = ''engine'' then Some (5000, 15000, 35000)
      else if t = ''propeller'' then Some (2000, 8000, 20000)
      else if t = ''hull'' then Some (3000, 12000, 30000)
      else if t = ''navigation'' then Some (1500, 5000, 12000)
      else if t = ''electrical'' then Some (1000, 4000, 10000)
      else if t = ''hydraulic'' then Some (1200, 4500, 11000)
      else if t = ''hvac'' then Some (800, 2500, 6000)
      else None)"

definition calculateBaseCost :: "string \<Rightarrow> maintenance_type \<Rightarrow> real" where
  "calculateBaseCost componentType mt =
     (case baseCosts componentType of Some row \<Rightarrow> pick mt row | None \<Rightarrow> 1000)"

definition baseDowntimes :: "string \<Rightarrow> (real \<times> real \<times> real) option" where
  "baseDowntimes t =
     (if t = ''engine'' then Some (8, 24, 72)
      else if t = ''propeller'' then Some (12, 36, 96)
      else if t = ''hull'' then Some (24, 72, 168)
      else if t = ''navigation'' then Some (4, 12, 24)
      else if t = ''electrical'' then Some (6, 18, 48)
      else if t = ''hydraulic'' then Some (8, 20, 56)
      else if t = ''hvac'' then Some (4, 10, 24)
      else None)"

definition calculateBaseDowntime :: "string \<Rightarrow> maintenance_type \<Rightarrow> real" where
  "calculateBaseDowntime componentType mt =
     (case baseDowntimes componentType of Some row \<Rightarrow> pick mt row | None \<Rightarrow> 8)"

definition calculateFactorScores ::
  "Ship \<Rightarrow> Component \<Rightarrow> Usage \<Rightarrow> MaintenanceEvent list \<Rightarrow> LastReadings \<Rightarrow> Factors" where
  "calculateFactorScores sh cmpt us history readings =
     \<lparr>ageScore = min 1 (age sh / 25),
      usageScore = min 1 ((dailyOperatingHours us / 16) * 0.5
                          + (voyagesPerMonth us / 20) * 0.3
                          + roughSeaExposure (environmentalConditions us) * 0.2),
      conditionScore = min 1 (averageLoad (operatingConditions cmpt) * 0.4
                              + (oc_vibration (operatingConditions cmpt) / 10) * 0.3
                              + (oc_temperature (operatingConditions cmpt) / 100) * 0.3),
      historyScore = min 1 (real (length history) / 20),
      sensorScore = min 1 ((1 - lr_efficiency readings) * 0.5
                           + (lr_vibration readings / 10) * 0.3
                           + (lr_temperature readings / 100) * 0.2)\<rparr>"

definition generateRecommendations ::
  "int \<Rightarrow> Component \<Rightarrow> LastReadings \<Rightarrow> jsnum \<Rightarrow> maintenance_type \<Rightarrow> string list" where
  "generateRecommendations now cmpt readings risk mt =
     (if jgt risk (Fin 0.8)
      then [''Schedule immediate inspection'', ''Consider reducing operational load''] else [])
     @ (if mt = Emergency
        then [''Prioritize emergency maintenance scheduling'',
              ''Prepare backup systems if available''] else [])
     @ (if lr_efficiency readings < 0.7
        then [''Component efficiency is below optimal - consider replacement''] else [])
     @ (if oc_vibration (operatingConditions cmpt) > 7
        then [''High vibration detected - check alignment and mounting''] else [])
     @ (if (now - lastMaintenanceDate cmpt) div day_ms > 365
        then [''Component overdue for scheduled maintenance''] else [])"

definition generateAlternativeSchedules :: "jsdate \<Rightarrow> jsnum \<Rightarrow> jsnum \<Rightarrow> Schedule list" where
  "generateAlternativeSchedules recommendedDate baseCost risk =
     [\<lparr>sch_date = new_Date (jsub (getTime recommendedDate) (Fin (real_of_int (7 * day_ms)))),
       sch_type = ''Preventive (Early)'',
       sch_cost = jmul baseCost (Fin 0.9),
       sch_risk = jmul risk (Fin 0.8)\<rparr>]
     @ (if jlt risk (Fin 0.7)
        then [\<lparr>sch_date = new_Date (jadd (getTime recommendedDate) (Fin (real_of_int (14 * day_ms)))),
                sch_type = ''Preventive (Delayed)'',
                sch_cost = jmul baseCost (Fin 1.1),
                sch_risk = jmul risk (Fin 1.2)\<rparr>]
        else [])"

text \<open>The type of maintenance, from the risk score and the urgency factor.\<close>

definition select_maintenanceType :: "jsnum \<Rightarrow> jsnum \<Rightarrow> maintenance_type" where
  "select_maintenanceType risk urgency =
     (if jgt risk (Fin 0.9) \<or> jgt urgency (Fin 0.9) then Emergency
      else if jgt risk (Fin 0.6) then Corrective
      else Preventive)"

text \<open>
  What one call of \<^verbatim>\<open>predictMaintenance\<close> meets outside the program: the artifact that
  \<^verbatim>\<open>initialize\<close> would find, the kernels that \<^verbatim>\<open>buildModel\<close> would draw, and the readings
  of the clock, in the order of the calls.
\<close>

record Env =
  found :: artifact
  drawn :: "nat \<Rightarrow> real list list"
  t_preprocess :: int
  t_predict :: int
  t_failure :: int
  t_recommended :: int
  t_recommendations :: int

text \<open>
  The part of \<^verbatim>\<open>predictMaintenance\<close> after the prediction has been checked: the five
  factors are the components of the raw output. A property read on a missing object is
  a \<^verbatim>\<open>TypeError\<close>.
\<close>

definition derive_prediction ::
  "Env \<Rightarrow> MaintenanceInput \<Rightarrow> jsnum \<Rightarrow> jsnum \<Rightarrow> jsnum \<Rightarrow> jsnum \<Rightarrow> jsnum \<Rightarrow> jsnum \<Rightarrow>
   error + MaintenancePrediction" where
  "derive_prediction env input conf risk daysToFailureFactor costFactor downtimeFactor urgencyFactor =
     (case (ship input, component input, usage input, sensors input) of
        (Some sh, Some cmpt, Some us, Some se) \<Rightarrow>
          (case lastReadings se of
             None \<Rightarrow> Inl (TypeError ''Cannot read properties of undefined'')
           | Some readings \<Rightarrow>
          (case maintenanceHistory cmpt of
             None \<Rightarrow> Inl (TypeError ''Cannot read properties of undefined'')
           | Some history \<Rightarrow>
              let averageInterval = calculateAverageMaintenanceInterval history;
                  baseDaysToFailure = jmul (Fin averageInterval) (Fin 1.2);
                  predictedDaysToFailure =
                    jmax (Fin 1) (jmul baseDaysToFailure (jsub (Fin 1) daysToFailureFactor));
                  failureDate =
                    (if jgt risk (Fin 0.8)
                     then Some (new_Date (jadd (Fin (real_of_int (t_failure env)))
                                   (jmul predictedDaysToFailure (Fin (real_of_int day_ms)))))
                     else None);
                  recommendedDate =
                    new_Date (jadd (Fin (real_of_int (t_recommended env)))
                      (jmul (jmax (Fin 7) (jmul predictedDaysToFailure (Fin 0.7)))
                            (Fin (real_of_int day_ms))));
                  mt = select_maintenanceType risk urgencyFactor;
                  baseCost = calculateBaseCost (comp_type cmpt) mt;
                  cost = jmul (Fin baseCost) (jadd (Fin 1) (jmul costFactor (Fin 0.5)));
                  baseDowntime = calculateBaseDowntime (comp_type cmpt) mt;
                  downtime = jmul (Fin baseDowntime) (jadd (Fin 1) (jmul downtimeFactor (Fin 0.4)))
              in Inr \<lparr>riskScore = risk,
                      predictedFailureDate = failureDate,
                      recommendedMaintenanceDate = recommendedDate,
                      maintenanceType = mt,
                      estimatedCost = cost,
                      estimatedDowntime = downtime,
                      mp_confidence = conf,
                      factors = calculateFactorScores sh cmpt us history readings,
                      recommendations =
                        generateRecommendations (t_recommendations env) cmpt readings risk mt,
                      alternativeSchedules = generateAlternativeSchedules recommendedDate cost risk\<rparr>))
      | _ \<Rightarrow> Inl (TypeError ''Cannot read properties of undefined''))"

text \<open>
  \<^verbatim>\<open>MaintenanceForecasterModel.predictMaintenance\<close>. It returns the model object and the
  input record as the call leaves them, with the prediction or the error thrown. The
  input is a record, so the first test of the method (that it is an object) holds; the
  days since the last maintenance, which the method computes and does not use, are left
  out.
\<close>

definition predictMaintenance ::
  "Env \<Rightarrow> BaseModel \<Rightarrow> MaintenanceInput \<Rightarrow>
   BaseModel \<times> MaintenanceInput \<times> (error + MaintenancePrediction)" where
  "predictMaintenance env this input =
     (case (if model this = None \<or> \<not> isLoaded this
            then initialize (maintenance_buildModel (drawn env)) (found env) this
            else Inr this) of
        Inl e \<Rightarrow> (this, input, Inl e)
      | Inr this1 \<Rightarrow>
          (case predict (maintenance_preprocessInput (t_preprocess env)) (t_predict env) this1 input of
             Inl e \<Rightarrow> (this1, input, Inl e)
           | Inr (p, input1) \<Rightarrow>
               (case prediction p of
                  [risk, daysToFailureFactor, costFactor, downtimeFactor, urgencyFactor] \<Rightarrow>
                    if isNaN risk \<or> isNaN daysToFailureFactor \<or> isNaN costFactor
                       \<or> isNaN downtimeFactor \<or> isNaN urgencyFactor
                    then (this1, input1, Inl (Error ''Invalid prediction values''))
                    else (this1, input1,
                          derive_prediction env input1 (confidence p) risk daysToFailureFactor
                            costFactor downtimeFactor urgencyFactor)
                | _ \<Rightarrow> (this1, input1, Inl (Error ''Invalid prediction result'')))))"




datatype priority = Low | Medium | High | Critical

















section \<open>RouteOptimizerModel\<close>

record Point =
  latitude :: real
  longitude :: real

record ShipSpecs =
  maxSpeed :: real
  fuelCapacity :: real
  cargoCapacity :: real
  currentCargoWeight :: real

record WeatherConditions =
  windSpeed :: real
  waveHeight :: real
  visibility :: real
  wc_temperature :: real

record Preferences =
  prioritizeFuel :: bool
  prioritizeTime :: bool
  avoidRoughSeas :: bool

record RouteInput =
  origin :: Point
  destination :: Point
  shipSpecs :: ShipSpecs
  weatherConditions :: WeatherConditions
  preferences :: Preferences

record AlternativeRoute =
  alt_route :: "Point list"
  alt_time :: real
  alt_fuel :: real
  alt_risk :: real

record RouteOptimization =
  optimizedRoute :: "Point list"
  estimatedTime :: jsnum
  estimatedFuelConsumption :: jsnum
  weatherRiskScore :: jsnum
  totalDistance :: real
  alternativeRoutes :: "AlternativeRoute list"

definition atan2 :: "real \<Rightarrow> real \<Rightarrow> real" where
  "atan2 y x =
     (if 0 < x then arctan (y / x)
      else if x < 0 then (if 0 \<le> y then arctan (y / x) + pi else arctan (y / x) - pi)
      else if 0 < y then pi / 2 else if y < 0 then - (pi / 2) else 0)"

definition calculateDistance :: "Point \<Rightarrow> Point \<Rightarrow> real" where
  "calculateDistance point1 point2 =
     (let R = 3440.065;
          lat1Rad = (latitude point1 * pi) / 180;
          lat2Rad = (latitude point2 * pi) / 180;
          deltaLatRad = ((latitude point2 - latitude point1) * pi) / 180;
          deltaLonRad = ((longitude point2 - longitude point1) * pi) / 180;
          a = sin (deltaLatRad / 2) * sin (deltaLatRad / 2)
              + cos lat1Rad * cos lat2Rad * sin (deltaLonRad / 2) * sin (deltaLonRad / 2);
          c = 2 * atan2 (sqrt a) (sqrt (1 - a))
      in R * c)"

definition bool_num :: "bool \<Rightarrow> jsnum" where
  "bool_num b = (if b then Fin 1 else Fin 0)"

text \<open>\<^verbatim>\<open>preprocessInput\<close> of the route model; \<open>month\<close> is \<^verbatim>\<open>new Date().getMonth()\<close>. It
  leaves its argument as it is.\<close>

definition route_preprocessInput :: "nat \<Rightarrow> RouteInput \<Rightarrow> error + jsnum list \<times> RouteInput" where
  "route_preprocessInput month data =
     (let distanceNm = calculateDistance (origin data) (destination data);
          features =
            [Fin (latitude (origin data) / 90),
             Fin (longitude (origin data) / 180),
             Fin (latitude (destination data) / 90),
             Fin (longitude (destination data) / 180),
             Fin (maxSpeed (shipSpecs data) / 30),
             jdiv (Fin (currentCargoWeight (shipSpecs data))) (Fin (cargoCapacity (shipSpecs data))),
             Fin (windSpeed (weatherConditions data) / 50),
             Fin (waveHeight (weatherConditions data) / 10),
             Fin (visibility (weatherConditions data) / 10),
             Fin (wc_temperature (weatherConditions data) / 50),
             bool_num (prioritizeFuel (preferences data)),
             bool_num (prioritizeTime (preferences data)),
             bool_num (avoidRoughSeas (preferences data)),
             Fin (distanceNm / 5000),
             Fin (sin (real month * pi / 6))]
      in Inr (features, data))"

definition calculateBaseTime :: "real \<Rightarrow> real \<Rightarrow> jsnum" where
  "calculateBaseTime distanceNm speed = jdiv (Fin distanceNm) (Fin speed)"

definition calculateBaseFuelConsumption :: "real \<Rightarrow> ShipSpecs \<Rightarrow> jsnum" where
  "calculateBaseFuelConsumption distanceNm specs =
     (let baseConsumption = Fin (distanceNm * 0.3);
          cargoFactor = jadd (Fin 1)
            (jmul (jdiv (Fin (currentCargoWeight specs)) (Fin (cargoCapacity specs))) (Fin 0.2));
          speedFactor = Fin ((maxSpeed specs / 20) ^ 2)
      in jmul (jmul baseConsumption cargoFactor) speedFactor)"

text \<open>\<^verbatim>\<open>Math.floor\<close>, and the number of way points
  \<^verbatim>\<open>Math.max(2, Math.floor(efficiency * 10))\<close> as a loop bound: the loop
  \<^verbatim>\<open>for (i = 1; i < n; i++)\<close> does not run when \<open>n\<close> is NaN and does not end when it is
  \<^verbatim>\<open>Infinity\<close>, which an efficiency read from a finite or NaN output never gives.\<close>

fun jfloor :: "jsnum \<Rightarrow> jsnum" where
  "jfloor (Fin r) = Fin (real_of_int \<lfloor>r\<rfloor>)"
| "jfloor v = v"

definition point_at :: "Point \<Rightarrow> Point \<Rightarrow> real \<Rightarrow> real \<Rightarrow> real \<Rightarrow> Point" where
  "point_at o1 d progress latAdjustment lonAdjustment =
     \<lparr>latitude = latitude o1 + (latitude d - latitude o1) * progress + latAdjustment,
      longitude = longitude o1 + (longitude d - longitude o1) * progress + lonAdjustment\<rparr>"

text \<open>\<open>random k\<close> is the \<open>k\<close>-th value that \<^verbatim>\<open>Math.random()\<close> returns in the call.\<close>

definition generateOptimizedWaypoints ::
  "(nat \<Rightarrow> real) \<Rightarrow> Point \<Rightarrow> Point \<Rightarrow> WeatherConditions \<Rightarrow> jsnum \<Rightarrow> Point list" where
  "generateOptimizedWaypoints random o1 d weather efficiency =
     (let numWaypoints = jmax (Fin 2) (jfloor (jmul efficiency (Fin 10)));
          weatherDeviation = (windSpeed weather + waveHeight weather) / 100
      in case numWaypoints of
           Fin n \<Rightarrow>
             [o1] @ map (\<lambda>i. point_at o1 d (real i / n)
                                ((random (2 * (i - 1)) - 0.5) * weatherDeviation)
                                ((random (2 * (i - 1) + 1) - 0.5) * weatherDeviation))
                        [1 ..< nat \<lceil>n\<rceil>]
             @ [d]
         | _ \<Rightarrow> [o1, d])"

fun calculateTotalRouteDistance :: "Point list \<Rightarrow> real" where
  "calculateTotalRouteDistance (a # b # rest) =
     calculateDistance a b + calculateTotalRouteDistance (b # rest)"
| "calculateTotalRouteDistance _ = 0"

definition alternative_route ::
  "(nat \<Rightarrow> real) \<Rightarrow> Point \<Rightarrow> Point \<Rightarrow> WeatherConditions \<Rightarrow> nat \<Rightarrow> AlternativeRoute" where
  "alternative_route random o1 d weather i =
     (let routeVariation = (real i + 1) * 0.1;
          route = map (\<lambda>j. if 0 < j \<and> j < 5
                            then point_at o1 d (real j / 5)
                                   ((random (2 * (j - 1)) - 0.5) * routeVariation)
                                   ((random (2 * (j - 1) + 1) - 0.5) * routeVariation)
                            else point_at o1 d (real j / 5) 0 0)
                      [0 ..< 6];
          distanceNm = calculateTotalRouteDistance route
      in \<lparr>alt_route = route,
          alt_time = distanceNm / 20,
          alt_fuel = distanceNm * 0.35,
          alt_risk = min 1 ((windSpeed weather + waveHeight weather) / 30)\<rparr>)"

definition generateAlternativeRoutes ::
  "(nat \<Rightarrow> real) \<Rightarrow> Point \<Rightarrow> Point \<Rightarrow> WeatherConditions \<Rightarrow> AlternativeRoute list" where
  "generateAlternativeRoutes random o1 d weather =
     [alternative_route random o1 d weather 0,
      alternative_route (\<lambda>k. random (k + 8)) o1 d weather 1]"

text \<open>A component of the raw output read by position. A position past the end reads
  \<^verbatim>\<open>undefined\<close>, which every arithmetic use turns into NaN; the model reads NaN.\<close>

definition output_at :: "jsnum list \<Rightarrow> nat \<Rightarrow> jsnum" where
  "output_at values i = (if i < length values then values ! i else NaN)"

record RouteEnv =
  r_month :: nat
  r_now :: int
  r_random :: "nat \<Rightarrow> real"

text \<open>\<^verbatim>\<open>RouteOptimizerModel.optimizeRoute\<close>. The way points of the optimised route draw
  their random values first, the alternative routes after them.\<close>

definition optimizeRoute :: "RouteEnv \<Rightarrow> BaseModel \<Rightarrow> RouteInput \<Rightarrow> error + RouteOptimization" where
  "optimizeRoute env this input =
     (case predict (route_preprocessInput (r_month env)) (r_now env) this input of
        Inl e \<Rightarrow> Inl e
      | Inr (p, input1) \<Rightarrow>
          let timeFactor = output_at (prediction p) 0;
              fuelFactor = output_at (prediction p) 1;
              risk = output_at (prediction p) 2;
              routeEfficiency = output_at (prediction p) 3;
              distanceNm = calculateDistance (origin input1) (destination input1);
              baseTime = calculateBaseTime distanceNm (maxSpeed (shipSpecs input1));
              baseFuel = calculateBaseFuelConsumption distanceNm (shipSpecs input1);
              route = generateOptimizedWaypoints (r_random env) (origin input1) (destination input1)
                        (weatherConditions input1) routeEfficiency;
              used = 2 * (length route - 2)
          in Inr \<lparr>optimizedRoute = route,
                  estimatedTime = jmul baseTime (jadd (Fin 1) (jmul timeFactor (Fin 0.5))),
                  estimatedFuelConsumption = jmul baseFuel (jadd (Fin 1) (jmul fuelFactor (Fin 0.3))),
                  weatherRiskScore = risk,
                  totalDistance = distanceNm,
                  alternativeRoutes =
                    generateAlternativeRoutes (\<lambda>k. r_random env (k + used)) (origin input1)
                      (destination input1) (weatherConditions input1)\<rparr>)"

section \<open>FuelPredictorModel\<close>

record Voyage =
  distance :: real
  duration :: real
  averageSpeed :: real

record FuelShip =
  f_type :: string
  f_length :: real
  beam :: real
  displacement :: real
  f_enginePower :: real
  f_maxSpeed :: real
  cargoWeight :: real
  f_cargoCapacity :: real

record Conditions =
  c_windSpeed :: real
  windDirection :: real
  c_waveHeight :: real
  currentSpeed :: real
  currentDirection :: real
  c_temperature :: real
  seaState :: real

record Operational =
  cruisingSpeed :: real
  loadFactor :: real
  mainEngineLoad :: real
  auxiliaryLoad :: real
  hvacLoad :: real

record FuelPredictionInput =
  voyage :: Voyage
  f_ship :: FuelShip
  conditions :: Conditions
  operational :: Operational

record ImpactFactors =
  weatherImpact :: jsnum
  loadImpact :: jsnum
  speedImpact :: jsnum
  seaStateImpact :: jsnum

record FuelPrediction =
  totalConsumption :: jsnum
  consumptionRate :: jsnum
  mainEngineConsumption :: jsnum
  auxiliaryConsumption :: jsnum
  efficiency :: jsnum
  co2Emissions :: jsnum
  fp_confidence :: jsnum
  fp_factors :: ImpactFactors

definition FUEL_DENSITY :: real where
  "FUEL_DENSITY = 0.845"

definition CO2_FACTOR :: real where
  "CO2_FACTOR = 3.15"

text \<open>\<^verbatim>\<open>preprocessInput\<close> of the fuel model. The encoding of the ship type that the
  method computes is not among the features.\<close>

definition fuel_preprocessInput :: "FuelPredictionInput \<Rightarrow> error + jsnum list \<times> FuelPredictionInput" where
  "fuel_preprocessInput data =
     (let v = voyage data; sh = f_ship data; c = conditions data; op = operational data;
          features =
            [Fin (distance v / 10000),
             Fin (duration v / 500),
             Fin (averageSpeed v / 35),
             Fin (f_length sh / 400),
             Fin (beam sh / 60),
             Fin (displacement sh / 100000),
             Fin (f_enginePower sh / 50000),
             Fin (f_maxSpeed sh / 35),
             jdiv (Fin (cargoWeight sh)) (Fin (f_cargoCapacity sh)),
             Fin (c_windSpeed c / 60),
             Fin (cos ((windDirection c * pi) / 180)),
             Fin (sin ((windDirection c * pi) / 180)),
             Fin (c_waveHeight c / 15),
             Fin (currentSpeed c / 10),
             Fin (cos ((currentDirection c * pi) / 180)),
             Fin (c_temperature c / 50),
             Fin (seaState c / 9),
             Fin (cruisingSpeed op / 35),
             Fin (mainEngineLoad op),
             Fin (auxiliaryLoad op)]
      in Inr (features, data))"

text \<open>\<^verbatim>\<open>Math.pow(x, 3)\<close> and \<^verbatim>\<open>Math.round\<close>.\<close>

definition jcube :: "jsnum \<Rightarrow> jsnum" where
  "jcube x = jmul (jmul x x) x"

fun jround :: "jsnum \<Rightarrow> jsnum" where
  "jround (Fin r) = Fin (real_of_int \<lfloor>r + 1 / 2\<rfloor>)"
| "jround v = v"

definition calculateBaseMainEngineConsumption :: "FuelPredictionInput \<Rightarrow> jsnum" where
  "calculateBaseMainEngineConsumption input =
     (let v = voyage input; sh = f_ship input; op = operational input;
          sfoc = 190;
          powerUsed = f_enginePower sh * mainEngineLoad op;
          baseConsumption = (powerUsed * duration v * sfoc) / 1000;
          speedFactor = jcube (jdiv (Fin (cruisingSpeed op)) (Fin (f_maxSpeed sh)));
          lf = 1 + (loadFactor op * 0.15)
      in jmul (jmul (Fin baseConsumption) speedFactor) (Fin lf))"

definition calculateBaseAuxiliaryConsumption :: "FuelPredictionInput \<Rightarrow> real" where
  "calculateBaseAuxiliaryConsumption input =
     (let v = voyage input; sh = f_ship input; op = operational input;
          auxPower = f_enginePower sh * 0.1;
          sfoc = 210;
          baseConsumption = (auxPower * auxiliaryLoad op * duration v * sfoc) / 1000;
          hvacFactor = 1 + (hvacLoad op * 0.2)
      in baseConsumption * hvacFactor)"

definition round2 :: "jsnum \<Rightarrow> jsnum" where
  "round2 x = jdiv (jround (jmul x (Fin 100))) (Fin 100)"

definition calculateImpactFactors :: "FuelPredictionInput \<Rightarrow> ImpactFactors" where
  "calculateImpactFactors input =
     (let c = conditions input; op = operational input; sh = f_ship input;
          windImpact = min 30 ((c_windSpeed c / 30) * 15);
          waveImpact = min 20 ((c_waveHeight c / 8) * 12);
          weather = windImpact + waveImpact;
          load = loadFactor op * 15;
          speedRatio = jdiv (Fin (cruisingSpeed op)) (Fin (f_maxSpeed sh));
          speed = jmul (jsub (jcube speedRatio) (Fin (0.7 ^ 3))) (Fin 50);
          sea = (seaState c / 9) * 10
      in \<lparr>weatherImpact = round2 (Fin weather),
          loadImpact = round2 (Fin load),
          speedImpact = round2 speed,
          seaStateImpact = round2 (Fin sea)\<rparr>)"

definition predictFuelConsumption :: "int \<Rightarrow> BaseModel \<Rightarrow> FuelPredictionInput \<Rightarrow> error + FuelPrediction" where
  "predictFuelConsumption now this input =
     (case predict fuel_preprocessInput now this input of
        Inl e \<Rightarrow> Inl e
      | Inr (p, input1) \<Rightarrow>
          let mainConsumptionFactor = output_at (prediction p) 0;
              auxConsumptionFactor = output_at (prediction p) 1;
              baseMainConsumption = calculateBaseMainEngineConsumption input1;
              baseAuxConsumption = calculateBaseAuxiliaryConsumption input1;
              mainEngine = jmul baseMainConsumption (jadd (Fin 1) (jmul mainConsumptionFactor (Fin 0.5)));
              auxiliary = jmul (Fin baseAuxConsumption) (jadd (Fin 1) (jmul auxConsumptionFactor (Fin 0.3)));
              total = jadd mainEngine auxiliary
          in Inr \<lparr>totalConsumption = total,
                  consumptionRate = jdiv total (Fin (duration (voyage input1))),
                  mainEngineConsumption = mainEngine,
                  auxiliaryConsumption = auxiliary,
                  efficiency = jdiv total (Fin (distance (voyage input1))),
                  co2Emissions = jmul (jmul total (Fin FUEL_DENSITY)) (Fin CO2_FACTOR),
                  fp_confidence = confidence p,
                  fp_factors = calculateImpactFactors input1\<rparr>)"


section \<open>AIService: prediction history and evaluation\<close>

record history_entry =
  h_modelName :: string
  h_timestamp :: int
  h_confidence :: jsnum
  h_success :: bool

record AIService =
  routeOptimizer :: BaseModel
  fuelPredictor :: BaseModel
  maintenanceForecaster :: BaseModel
  predictionHistory :: "history_entry list"

definition recordPrediction :: "string \<Rightarrow> jsnum \<Rightarrow> bool \<Rightarrow> int \<Rightarrow> AIService \<Rightarrow> AIService" where
  "recordPrediction name conf ok now this =
     (let pushed = predictionHistory this @
            [\<lparr>h_modelName = name, h_timestamp = now, h_confidence = conf, h_success = ok\<rparr>]
      in if length pushed > 1000
         then this\<lparr>predictionHistory := slice_last 1000 pushed\<rparr>
         else this\<lparr>predictionHistory := pushed\<rparr>)"




text \<open>The constructor of the service: three models not yet initialised, no history.\<close>

definition new_AIService :: AIService where
  "new_AIService = \<lparr>routeOptimizer = new_BaseModel route_config,
     fuelPredictor = new_BaseModel fuel_config,
     maintenanceForecaster = new_BaseModel maintenance_config,
     predictionHistory = []\<rparr>"

text \<open>A sequence of calls of \<^verbatim>\<open>recordPrediction\<close>, each with its arguments and the
  reading of the clock, and the entry each call appends.\<close>

type_synonym record_call = "string \<times> jsnum \<times> bool \<times> int"

definition entry_of :: "record_call \<Rightarrow> history_entry" where
  "entry_of c = (case c of (name, conf, ok, now) \<Rightarrow>
     \<lparr>h_modelName = name, h_timestamp = now, h_confidence = conf, h_success = ok\<rparr>)"

definition record_all :: "AIService \<Rightarrow> record_call list \<Rightarrow> AIService" where
  "record_all this calls =
     foldl (\<lambda>s c. case c of (name, conf, ok, now) \<Rightarrow> recordPrediction name conf ok now s) this calls"

text \<open>
  The three prediction methods of the service. Each records the outcome in the history,
  also when the model throws, and passes the result or the error on. \<open>now\<close> is the reading
  of the clock in \<^verbatim>\<open>recordPrediction\<close>.
\<close>

definition service_optimizeRoute ::
  "RouteEnv \<Rightarrow> int \<Rightarrow> RouteInput \<Rightarrow> AIService \<Rightarrow> AIService \<times> (error + RouteOptimization)" where
  "service_optimizeRoute env now input this =
     (case optimizeRoute env (routeOptimizer this) input of
        Inr optimization \<Rightarrow>
          (recordPrediction ''route-optimizer'' (weatherRiskScore optimization) True now this,
           Inr optimization)
      | Inl e \<Rightarrow> (recordPrediction ''route-optimizer'' (Fin 0) False now this, Inl e))"

definition service_predictFuelConsumption ::
  "int \<Rightarrow> int \<Rightarrow> FuelPredictionInput \<Rightarrow> AIService \<Rightarrow> AIService \<times> (error + FuelPrediction)" where
  "service_predictFuelConsumption t now input this =
     (case predictFuelConsumption t (fuelPredictor this) input of
        Inr p \<Rightarrow> (recordPrediction ''fuel-predictor'' (fp_confidence p) True now this, Inr p)
      | Inl e \<Rightarrow> (recordPrediction ''fuel-predictor'' (Fin 0) False now this, Inl e))"

definition service_predictMaintenance ::
  "Env \<Rightarrow> int \<Rightarrow> MaintenanceInput \<Rightarrow> AIService \<Rightarrow>
   AIService \<times> MaintenanceInput \<times> (error + MaintenancePrediction)" where
  "service_predictMaintenance env now input this =
     (case predictMaintenance env (maintenanceForecaster this) input of
        (forecaster, input1, Inr p) \<Rightarrow>
          (recordPrediction ''maintenance-forecaster'' (mp_confidence p) True now
             (this\<lparr>maintenanceForecaster := forecaster\<rparr>),
           input1, Inr p)
      | (forecaster, input1, Inl e) \<Rightarrow>
          (recordPrediction ''maintenance-forecaster'' (Fin 0) False now
             (this\<lparr>maintenanceForecaster := forecaster\<rparr>),
           input1, Inl e))"

section \<open>The evaluation as the specification words it\<close>


section \<open>Sample data\<close>





text \<open>Kernels of the right shapes with every weight 0, for each of the three networks.\<close>

definition zero_rows :: "nat \<Rightarrow> nat \<Rightarrow> real list list" where
  "zero_rows units n = replicate units (replicate n 0)"

definition route_zero_kernels :: "nat \<Rightarrow> real list list" where
  "route_zero_kernels i =
     (if i = 0 then zero_rows 64 15 else if i = 1 then zero_rows 32 64
      else if i = 2 then zero_rows 16 32 else zero_rows 4 16)"

definition wide_zero_kernels :: "nat \<Rightarrow> nat \<Rightarrow> nat \<Rightarrow> real list list" where
  "wide_zero_kernels n_in n_out i =
     (if i = 0 then zero_rows 128 n_in else if i = 1 then zero_rows 64 128
      else if i = 2 then zero_rows 32 64 else if i = 3 then zero_rows 16 32
      else zero_rows n_out 16)"

text \<open>A route model after \<^verbatim>\<open>initialize\<close> has built it, no artifact being stored.\<close>

definition sample_route_model :: BaseModel where
  "sample_route_model =
     \<lparr>model = Some (compile 0.001 (route_buildModel route_zero_kernels)),
      config = route_config, isLoaded = True\<rparr>"

text \<open>A fuel model whose last layer has the weights 0 and the biases 2, and one where
  the biases are 0 as well, as \<^verbatim>\<open>buildModel\<close> creates them.\<close>

definition offset_fuel_model :: BaseModel where
  "offset_fuel_model =
     \<lparr>model = Some \<lparr>layers = butlast (layers (fuel_buildModel (wide_zero_kernels 20 3)))
                                @ [DenseL (replicate 3 (replicate 16 0, 2)) Linear],
                     optimizer = Some 0.0005\<rparr>,
      config = fuel_config, isLoaded = True\<rparr>"

definition sample_fuel_model :: BaseModel where
  "sample_fuel_model =
     \<lparr>model = Some (compile 0.0005 (fuel_buildModel (wide_zero_kernels 20 3))),
      config = fuel_config, isLoaded = True\<rparr>"

definition sample_route_input :: RouteInput where
  "sample_route_input =
     \<lparr>origin = \<lparr>latitude = 40, longitude = - 74\<rparr>,
      destination = \<lparr>latitude = 51, longitude = 0\<rparr>,
      shipSpecs = \<lparr>maxSpeed = 20, fuelCapacity = 5000, cargoCapacity = 1000,
                   currentCargoWeight = 500\<rparr>,
      weatherConditions = \<lparr>windSpeed = 10, waveHeight = 2, visibility = 8, wc_temperature = 15\<rparr>,
      preferences = \<lparr>prioritizeFuel = True, prioritizeTime = False, avoidRoughSeas = True\<rparr>\<rparr>"

definition sample_fuel_input :: FuelPredictionInput where
  "sample_fuel_input =
     \<lparr>voyage = \<lparr>distance = 1000, duration = 50, averageSpeed = 20\<rparr>,
      f_ship = \<lparr>f_type = ''cargo'', f_length = 200, beam = 30, displacement = 50000,
                f_enginePower = 20000, f_maxSpeed = 25, cargoWeight = 500,
                f_cargoCapacity = 1000\<rparr>,
      conditions = \<lparr>c_windSpeed = 10, windDirection = 0, c_waveHeight = 2, currentSpeed = 1,
                    currentDirection = 0, c_temperature = 15, seaState = 3\<rparr>,
      operational = \<lparr>cruisingSpeed = 20, loadFactor = 0.5, mainEngineLoad = 0.8,
                     auxiliaryLoad = 0.5, hvacLoad = 0.3\<rparr>\<rparr>"

text \<open>The raw output and the confidence of a call of \<open>predict\<close>, when it returns.\<close>

definition raw_of :: "error + PredictionResult \<times> 'i \<Rightarrow> jsnum list option" where
  "raw_of r = (case r of Inr (p, _) \<Rightarrow> Some (prediction p) | Inl _ \<Rightarrow> None)"

definition confidence_of :: "error + PredictionResult \<times> 'i \<Rightarrow> jsnum option" where
  "confidence_of r = (case r of Inr (p, _) \<Rightarrow> Some (confidence p) | Inl _ \<Rightarrow> None)"

text \<open>A \<^verbatim>\<open>fit\<close> that returns the network as it is with one loss value, and a training
  set of one sample.\<close>

definition sample_fit :: "LayersModel \<Rightarrow> TrainingData \<Rightarrow> error + LayersModel \<times> real list" where
  "sample_fit m trainingData = Inr (m, [0])"

definition sample_training :: TrainingData where
  "sample_training = \<lparr>inputs = [[0]], outputs = [[0]], validationSplit = None\<rparr>"

text \<open>A ship, a component with a given maintenance history, and an input whose sensor
  arrays and last readings are missing.\<close>

definition sample_ship :: Ship where
  "sample_ship = \<lparr>ship_id = ''S1'', ship_type = ''cargo'', age = 10, ship_length = 200,
                   enginePower = 20000, hoursOperated = 50000\<rparr>"

definition sample_component :: "MaintenanceEvent list option \<Rightarrow> Component" where
  "sample_component history =
     \<lparr>comp_type = ''engine'', lastMaintenanceDate = 0, maintenanceHistory = history,
      operatingConditions = \<lparr>averageLoad = 0.5, oc_temperature = 60, oc_vibration = 3,
                             oc_pressure = 10\<rparr>\<rparr>"

definition sample_usage :: Usage where
  "sample_usage =
     \<lparr>dailyOperatingHours = 12, voyagesPerMonth = 4, averageVoyageDistance = 2000,
      environmentalConditions = \<lparr>saltWaterExposure = 0.5, temperatureVariation = 10,
                                 roughSeaExposure = 0.2\<rparr>\<rparr>"

definition sample_sensors :: Sensors where
  "sample_sensors = \<lparr>s_temperature = None, s_vibration = None, s_pressure = None,
                      s_efficiency = None, lastReadings = None\<rparr>"

definition sample_input :: "MaintenanceEvent list option \<Rightarrow> MaintenanceInput" where
  "sample_input history =
     \<lparr>ship = Some sample_ship, component = Some (sample_component history),
      usage = Some sample_usage, sensors = Some sample_sensors\<rparr>"


text \<open>A maintenance model as trained: the weights of the last layer are 0 and its biases
  are 10, 0, 0, 0 and 0, so the risk score is the sigmoid of 10 and every other factor
  is one half.\<close>

definition sample_maintenance_model :: BaseModel where
  "sample_maintenance_model =
     \<lparr>model = Some \<lparr>layers = butlast (layers (maintenance_buildModel (wide_zero_kernels 25 5)))
                                @ [DenseL (map (\<lambda>b. (replicate 16 0, b)) [10, 0, 0, 0, 0]) Sigmoid],
                     optimizer = Some 0.0008\<rparr>,
      config = maintenance_config, isLoaded = True\<rparr>"

definition sample_env :: Env where
  "sample_env = \<lparr>found = NoArtifact, drawn = wide_zero_kernels 25 5,
                  t_preprocess = 1000, t_predict = 1001, t_failure = 1002,
                  t_recommended = 1003, t_recommendations = 1004\<rparr>"


definition sample_route_env :: RouteEnv where
  "sample_route_env = \<lparr>r_month = 0, r_now = 1000, r_random = (\<lambda>k. 0.5)\<rparr>"

text \<open>The sample input as \<^verbatim>\<open>preprocessInput\<close> leaves it, and the raw output of the sample
  maintenance model.\<close>

definition prepared_input :: "MaintenanceEvent list option \<Rightarrow> MaintenanceInput" where
  "prepared_input history =
     \<lparr>ship = Some sample_ship,
      component = Some (sample_component (Some (array_or_empty history))),
      usage = Some sample_usage,
      sensors = Some \<lparr>s_temperature = Some [], s_vibration = Some [], s_pressure = Some [],
                      s_efficiency = Some [], lastReadings = Some default_lastReadings\<rparr>\<rparr>"

definition sample_raw :: "jsnum list" where
  "sample_raw = [Fin (sigmoid 10), Fin (1 / 2), Fin (1 / 2), Fin (1 / 2), Fin (1 / 2)]"

text \<open>A service whose three models have been initialized, with an empty history.\<close>

definition sample_service :: AIService where
  "sample_service = \<lparr>routeOptimizer = sample_route_model, fuelPredictor = offset_fuel_model,
                       maintenanceForecaster = sample_maintenance_model,
                       predictionHistory = []\<rparr>"


text \<open>The outcome of a call that returns the objects it leaves with its result.\<close>

definition outcome :: "'a \<times> 'b \<times> (error + 'c) \<Rightarrow> error + 'c" where
  "outcome r = snd (snd r)"

section \<open>The prediction history\<close>

lemma slice_last_idem: "slice_last n (slice_last n xs @ [x]) = slice_last n (xs @ [x])"
  by (cases "length xs \<le> n") (auto simp: slice_last_def Suc_diff_le)

lemma recordPrediction_history:
  "predictionHistory (recordPrediction name conf ok now s) =
     slice_last 1000 (predictionHistory s @ [entry_of (name, conf, ok, now)])"
  by (simp add: recordPrediction_def Let_def slice_last_def entry_of_def)

lemma record_all_history:
  "length (predictionHistory s) \<le> 1000 \<Longrightarrow>
   predictionHistory (record_all s calls) = slice_last 1000 (predictionHistory s @ map entry_of calls)"
proof (induction calls rule: rev_induct)
  case Nil
  then show ?case by (simp add: record_all_def slice_last_def)
next
  case (snoc c calls)
  obtain name conf ok now where c: "c = (name, conf, ok, now)" by (cases c) auto
  have "predictionHistory (record_all s (calls @ [c])) =
        slice_last 1000 (predictionHistory (record_all s calls) @ [entry_of c])"
    by (simp add: record_all_def c recordPrediction_history)
  also have "\<dots> = slice_last 1000 ((predictionHistory s @ map entry_of calls) @ [entry_of c])"
    using snoc by (simp only: slice_last_idem)
  finally show ?case by simp
qed

lemma new_AIService_history: "predictionHistory new_AIService = []"
  by (simp add: new_AIService_def)

text \<open>
  Claim C2. Whatever sequence of predictions the service records, starting from its
  construction, the history is the last \<open>min(total, 1000)\<close> entries of the sequence of all
  entries appended, in their order: it never holds more than 1000 entries, and the
  entries dropped are the oldest.
\<close>

theorem history_bounded_fifo:
  "predictionHistory (record_all new_AIService calls) = slice_last 1000 (map entry_of calls)
   \<and> length (predictionHistory (record_all new_AIService calls)) = min (length calls) 1000
   \<and> length (predictionHistory (record_all new_AIService calls)) \<le> 1000"
proof -
  have h: "predictionHistory (record_all new_AIService calls) = slice_last 1000 (map entry_of calls)"
    using record_all_history [of new_AIService calls] by (simp add: new_AIService_history)
  show ?thesis unfolding h by (auto simp: slice_last_def)
qed

section \<open>Evaluation of the models\<close>










section \<open>The confidence of a prediction\<close>







lemma calculateConfidence_zeros: "calculateConfidence [Fin 0, Fin 0, Fin 0] = NaN"
  by (simp add: calculateConfidence_def Math_max_def Math_min_def jsub_def)

section \<open>The raw output and the confidence of a prediction\<close>


lemma forward_snoc: "forward (ls @ [l]) x = apply_layer l (forward ls x)"
  by (simp add: forward_def)





lemma predict_Inr:
  assumes "predict pre now this x = Inr (p, x')"
  shows "\<exists>net features. model this = Some net \<and> isLoaded this \<and> pre x = Inr (features, x')
           \<and> prediction p = model_predict net features
           \<and> confidence p = calculateConfidence (model_predict net features)"
  using assms
  by (auto simp: predict_def Let_def postprocessOutput_def split: option.splits if_splits sum.splits prod.splits)




lemma dot_zero: "dot (replicate n 0) x = 0"
proof (induction n arbitrary: x)
  case 0 show ?case by (simp add: dot_def)
next
  case (Suc n)
  show ?case using Suc [of "tl x"] by (cases x) (simp_all add: dot_def)
qed

lemma dense_zero_kernel:
  "apply_layer (DenseL (replicate k (replicate n 0, b)) a) x = replicate k (activate a b)"
  by (simp add: dot_zero map_replicate)



lemma fresh_dense_zero: "fresh_dense (zero_rows u n) u a = DenseL (replicate u (replicate n 0, 0)) a"
  by (simp add: fresh_dense_def zero_rows_def list_eq_iff_nth_eq)




lemma forward_last_zero_kernel:
  "forward (ls @ [DenseL (replicate k (replicate n 0, b)) a]) x = replicate k (activate a b)"
  by (simp only: forward_snoc dense_zero_kernel)

lemma predict_loaded:
  "pre x = Inr (fs, x') \<Longrightarrow> list_all is_fin fs \<Longrightarrow> model this = Some net \<Longrightarrow> isLoaded this \<Longrightarrow>
   predict pre now this x =
     Inr (\<lparr>prediction = map Fin (forward (layers net) (map fin_val fs)),
           confidence = calculateConfidence (map Fin (forward (layers net) (map fin_val fs))),
           modelVersion = version (config this), timestamp = now\<rparr>, x')"
  by (simp add: predict_def Let_def postprocessOutput_def model_predict_def)

lemma fuel_pre: "\<exists>fs. fuel_preprocessInput sample_fuel_input = Inr (fs, sample_fuel_input) \<and> list_all is_fin fs"
  by (simp add: fuel_preprocessInput_def Let_def sample_fuel_input_def)

lemma sample_fuel_layers:
  "layers (compile r (fuel_buildModel (wide_zero_kernels 20 3)))
     = butlast (layers (fuel_buildModel (wide_zero_kernels 20 3)))
       @ [DenseL (replicate 3 (replicate 16 0, 0)) Linear]"
  by (simp add: compile_def fuel_buildModel_def wide_zero_kernels_def fresh_dense_zero)

lemma offset_fuel_predict:
  "predict fuel_preprocessInput t offset_fuel_model sample_fuel_input =
     Inr (\<lparr>prediction = [Fin 2, Fin 2, Fin 2], confidence = Fin 1,
           modelVersion = ''1.0.0'', timestamp = t\<rparr>, sample_fuel_input)"
proof -
  obtain fs where fs: "fuel_preprocessInput sample_fuel_input = Inr (fs, sample_fuel_input)"
    "list_all is_fin fs" using fuel_pre by blast
  have m: "model offset_fuel_model =
      Some \<lparr>layers = butlast (layers (fuel_buildModel (wide_zero_kernels 20 3)))
                       @ [DenseL (replicate 3 (replicate 16 0, 2)) Linear],
            optimizer = Some 0.0005\<rparr>"
    and l: "isLoaded offset_fuel_model"
    and v: "version (config offset_fuel_model) = ''1.0.0''"
    by (simp_all add: offset_fuel_model_def fuel_config_def)
  have cf: "calculateConfidence [Fin 2, Fin 2, Fin 2] = Fin 1"
    by (simp add: calculateConfidence_def Math_max_def Math_min_def jsub_def)
  have fw: "forward (butlast (layers (fuel_buildModel (wide_zero_kernels 20 3)))
                       @ [DenseL (replicate 3 (replicate 16 0, 2)) Linear]) x = [2, 2, 2]" for x
    by (simp only: forward_last_zero_kernel) (simp add: eval_nat_numeral)
  show ?thesis
    by (simp add: predict_loaded [where pre = fuel_preprocessInput and x = sample_fuel_input,
          OF fs m l] fw v cf)
qed





text \<open>
  Claim C4. The claim gives the confidence 0 when the maximum of the raw output is 0.
  A fuel model whose last layer has weights and biases 0 returns the raw output
  \<open>[0, 0, 0]\<close>; there the code divides 0 by 0, neither \<^verbatim>\<open>Math.min\<close> nor \<^verbatim>\<open>Math.max\<close>
  replaces the NaN, and the confidence returned is NaN.
\<close>

theorem confidence_all_zero:
  "raw_of (predict fuel_preprocessInput 0 sample_fuel_model sample_fuel_input)
     = Some [Fin 0, Fin 0, Fin 0]
   \<and> confidence_of (predict fuel_preprocessInput 0 sample_fuel_model sample_fuel_input) = Some NaN"
proof -
  obtain fs where fs: "fuel_preprocessInput sample_fuel_input = Inr (fs, sample_fuel_input)"
    "list_all is_fin fs" using fuel_pre by blast
  have fw: "forward (layers (compile r (fuel_buildModel (wide_zero_kernels 20 3)))) x = [0, 0, 0]" for r x
    by (simp only: sample_fuel_layers forward_last_zero_kernel) (simp add: eval_nat_numeral)
  have z: "calculateConfidence [Fin 0, Fin 0, Fin 0] = NaN"
    by (rule calculateConfidence_zeros)
  have m: "model sample_fuel_model = Some (compile 0.0005 (fuel_buildModel (wide_zero_kernels 20 3)))"
    and l: "isLoaded sample_fuel_model"
    by (simp_all add: sample_fuel_model_def)
  show ?thesis
    by (simp add: predict_loaded [where pre = fuel_preprocessInput and x = sample_fuel_input, OF fs m l] raw_of_def confidence_of_def fw z)
qed

section \<open>Training a model that has not been initialized\<close>

text \<open>
  Claim C5, as stated, fails: \<open>train\<close> on a model fresh from its constructor does not
  initialize it. It throws \<^verbatim>\<open>Model not initialized\<close> and the model still has no network.
\<close>

theorem train_uninitialized_counterexample:
  "train sample_fit None sample_training (new_BaseModel route_config)
     = (new_BaseModel route_config, Inl (Error ''Model not initialized''))
   \<and> model (fst (train sample_fit None sample_training (new_BaseModel route_config))) = None"
  by (simp add: train_def new_BaseModel_def)

text \<open>
  Claim C5, amended. \<open>train\<close> requires an initialized model: on a model that has no
  network it fails with the error \<^verbatim>\<open>Model not initialized\<close>, whatever the training
  samples, and leaves the model as it is. On a model that has a network it compiles the
  network first when it has no optimizer, and then fits it; when the fit and the save
  succeed, the model holds the trained network and the loss history is returned.
\<close>

theorem train_requires_model:
  "(model this = None \<longrightarrow>
      train fit save trainingData this = (this, Inl (Error ''Model not initialized'')))
   \<and> (\<forall>m trained history.
        model this = Some m
        \<and> fit (if optimizer m = None then compile (rate_or (learningRate (config this)) 0.001) m
                else m) trainingData = Inr (trained, history)
        \<and> save = None
        \<longrightarrow> train fit save trainingData this = (this\<lparr>model := Some trained\<rparr>, Inr history))"
  by (auto simp: train_def ensureModelCompiled_def)

theorem train_requires_model_witness:
  "model (new_BaseModel maintenance_config) = None
   \<and> train sample_fit None sample_training (new_BaseModel maintenance_config)
       = (new_BaseModel maintenance_config, Inl (Error ''Model not initialized''))
   \<and> model sample_route_model = Some (compile 0.001 (route_buildModel route_zero_kernels))
   \<and> train sample_fit None sample_training sample_route_model = (sample_route_model, Inr [0])"
proof -
  have a: "model (new_BaseModel maintenance_config) = None"
    by (simp add: new_BaseModel_def)
  have b: "model sample_route_model = Some (compile 0.001 (route_buildModel route_zero_kernels))"
    by (simp add: sample_route_model_def)
  have c: "sample_route_model\<lparr>model := Some (compile 0.001 (route_buildModel route_zero_kernels))\<rparr>
             = sample_route_model"
    by (simp add: sample_route_model_def)
  have d: "train sample_fit None sample_training sample_route_model = (sample_route_model, Inr [0])"
    using train_requires_model [of sample_route_model sample_fit None sample_training] b c
    by (simp add: sample_fit_def compile_def)
  show ?thesis
    using train_requires_model [of "new_BaseModel maintenance_config" sample_fit None sample_training]
      a b d by simp
qed

section \<open>The maintenance prediction\<close>

lemma model_predict_elem: "v \<in> set (model_predict net fs) \<Longrightarrow> is_fin v \<or> v = NaN"
  by (auto simp: model_predict_def split: if_splits)

lemma not_isNaN_Fin: "is_fin v \<or> v = NaN \<Longrightarrow> \<not> isNaN v \<Longrightarrow> \<exists>r. v = Fin r"
  by (cases v) auto

text \<open>A call of \<open>predictMaintenance\<close> that returns a prediction has read five finite
  factors from the raw output and derived the prediction from them.\<close>

lemma predictMaintenance_Inr:
  assumes "predictMaintenance env this input = (this1, input1, Inr p)"
  shows "\<exists>res r d c dt u.
           predict (maintenance_preprocessInput (t_preprocess env)) (t_predict env) this1 input
             = Inr (res, input1)
           \<and> prediction res = [Fin r, Fin d, Fin c, Fin dt, Fin u]
           \<and> derive_prediction env input1 (confidence res) (Fin r) (Fin d) (Fin c) (Fin dt) (Fin u)
               = Inr p"
proof -
  define start where "start = (if model this = None \<or> \<not> isLoaded this
            then initialize (maintenance_buildModel (drawn env)) (found env) this
            else Inr this)"
  from assms obtain this' where s: "start = Inr this'"
    unfolding predictMaintenance_def start_def [symmetric] by (cases start) auto
  from assms obtain res inp where
    pr: "predict (maintenance_preprocessInput (t_preprocess env)) (t_predict env) this' input = Inr (res, inp)"
    unfolding predictMaintenance_def start_def [symmetric] s
    by (cases "predict (maintenance_preprocessInput (t_preprocess env)) (t_predict env) this' input") auto
  from assms have rest:
    "(case prediction res of
        [risk, daysToFailureFactor, costFactor, downtimeFactor, urgencyFactor] \<Rightarrow>
          if isNaN risk \<or> isNaN daysToFailureFactor \<or> isNaN costFactor
             \<or> isNaN downtimeFactor \<or> isNaN urgencyFactor
          then (this', inp, Inl (Error ''Invalid prediction values''))
          else (this', inp,
                derive_prediction env inp (confidence res) risk daysToFailureFactor
                  costFactor downtimeFactor urgencyFactor)
      | _ \<Rightarrow> (this', inp, Inl (Error ''Invalid prediction result''))) = (this1, input1, Inr p)"
    unfolding predictMaintenance_def start_def [symmetric] s by (simp add: pr)
  then obtain a b c d e where raw: "prediction res = [a, b, c, d, e]"
    by (auto split: list.splits)
  from rest raw have nn: "\<not> isNaN a" "\<not> isNaN b" "\<not> isNaN c" "\<not> isNaN d" "\<not> isNaN e"
    and eq: "this' = this1" "inp = input1"
    and dv: "derive_prediction env inp (confidence res) a b c d e = Inr p"
    by (auto split: if_splits)
  obtain net fs where "prediction res = model_predict net fs"
    using predict_Inr [OF pr] by blast
  then have el: "\<And>v. v \<in> set [a, b, c, d, e] \<Longrightarrow> is_fin v \<or> v = NaN"
    using model_predict_elem raw by metis
  obtain ra rb rc rd re where "a = Fin ra" "b = Fin rb" "c = Fin rc" "d = Fin rd" "e = Fin re"
    using not_isNaN_Fin [OF el nn(1)] not_isNaN_Fin [OF el nn(2)] not_isNaN_Fin [OF el nn(3)]
      not_isNaN_Fin [OF el nn(4)] not_isNaN_Fin [OF el nn(5)] by auto
  then show ?thesis using pr raw dv eq by auto
qed

lemma select_maintenanceType_Fin:
  "select_maintenanceType (Fin r) (Fin u) =
     (if 0.9 < r \<or> 0.9 < u then Emergency else if 0.6 < r then Corrective else Preventive)"
  by (simp add: select_maintenanceType_def)


lemma derive_type:
  "derive_prediction env input conf risk d c dt u = Inr p \<Longrightarrow>
   maintenanceType p = select_maintenanceType risk u \<and> riskScore p = risk \<and> mp_confidence p = conf"
  by (auto simp: derive_prediction_def Let_def split: option.splits)

lemma output_at_5: "output_at [a, b, c, d, e] 0 = a" "output_at [a, b, c, d, e] 1 = b"
  "output_at [a, b, c, d, e] 4 = e"
  by (simp_all add: output_at_def)

lemma dense_zero_biases:
  "apply_layer (DenseL (map (\<lambda>b. (replicate n 0, b)) bs) a) x = map (activate a) bs"
  by (simp add: dot_zero comp_def)

lemma sigmoid_0: "sigmoid 0 = 1 / 2"
  by (simp add: sigmoid_def)

lemma sigmoid_10: "0.9 < sigmoid 10"
proof -
  define x :: real where "x = exp (- 10)"
  have "1 + (10::real) \<le> exp 10" by (rule exp_ge_add_one_self)
  then have e: "(11::real) \<le> exp 10" by simp
  have "x = 1 / exp 10" by (simp add: x_def exp_minus field_simps)
  also have "\<dots> \<le> 1 / 11" using e by (simp add: field_simps)
  finally have le: "x \<le> 1 / 11" .
  have pos: "0 < x" by (simp add: x_def)
  have "9 / 10 * (1 + x) < 1" using le by simp
  then have "9 / 10 < 1 / (1 + x)" using pos by (simp add: pos_less_divide_eq)
  then show ?thesis by (simp add: sigmoid_def x_def)
qed



lemma sample_preprocess:
  assumes "length (array_or_empty h) < 3"
  shows "\<exists>fs. maintenance_preprocessInput now (sample_input h) = Inr (fs, prepared_input h)
              \<and> list_all is_fin fs"
proof (cases h)
  case None
  then show ?thesis
    by (simp add: maintenance_preprocessInput_def sample_input_def sample_component_def
        sample_sensors_def prepared_input_def Let_def array_or_empty_def
        calculateMaintenanceCostTrend_def calculateSensorTrends_def calculateTrend_def)
next
  case (Some hs)
  then show ?thesis using assms
    by (simp add: maintenance_preprocessInput_def sample_input_def sample_component_def
        sample_sensors_def prepared_input_def Let_def array_or_empty_def
        calculateMaintenanceCostTrend_def calculateSensorTrends_def calculateTrend_def)
qed

lemma forward_last_zero_kernel5:
  "forward (ls @ [DenseL [(replicate n 0, b1), (replicate n 0, b2), (replicate n 0, b3),
                          (replicate n 0, b4), (replicate n 0, b5)] a]) x
     = [activate a b1, activate a b2, activate a b3, activate a b4, activate a b5]"
  by (simp add: forward_snoc dot_zero)

lemma sample_predict:
  assumes "length (array_or_empty h) < 3"
  shows "predict (maintenance_preprocessInput now) t sample_maintenance_model (sample_input h) =
     Inr (\<lparr>prediction = sample_raw, confidence = calculateConfidence sample_raw,
           modelVersion = ''1.0.0'', timestamp = t\<rparr>, prepared_input h)"
proof -
  obtain fs where fs: "maintenance_preprocessInput now (sample_input h) = Inr (fs, prepared_input h)"
    "list_all is_fin fs" using sample_preprocess [OF assms] by blast
  have m: "model sample_maintenance_model =
      Some \<lparr>layers = butlast (layers (maintenance_buildModel (wide_zero_kernels 25 5)))
                                @ [DenseL (map (\<lambda>b. (replicate 16 0, b)) [10, 0, 0, 0, 0]) Sigmoid],
                     optimizer = Some 0.0008\<rparr>"
    and l: "isLoaded sample_maintenance_model"
    and v: "version (config sample_maintenance_model) = ''1.0.0''"
    by (simp_all add: sample_maintenance_model_def maintenance_config_def)
  show ?thesis
    by (simp add: predict_loaded [where pre = "maintenance_preprocessInput now"
          and x = "sample_input h", OF fs m l] forward_last_zero_kernel5 sigmoid_0 v sample_raw_def)
qed

lemma sample_predictMaintenance:
  assumes "length (array_or_empty h) < 3"
  shows "predictMaintenance sample_env sample_maintenance_model (sample_input h) =
     (sample_maintenance_model, prepared_input h,
      derive_prediction sample_env (prepared_input h) (calculateConfidence sample_raw)
        (Fin (sigmoid 10)) (Fin (1 / 2)) (Fin (1 / 2)) (Fin (1 / 2)) (Fin (1 / 2)))"
proof -
  have l: "model sample_maintenance_model \<noteq> None" "isLoaded sample_maintenance_model"
    by (simp_all add: sample_maintenance_model_def)
  show ?thesis
    unfolding predictMaintenance_def
    by (simp add: l sample_predict [OF assms] sample_raw_def)
qed

lemma derive_sample_Inr:
  "\<exists>p. derive_prediction env (prepared_input h) conf r d c dt u = Inr p"
  by (simp add: derive_prediction_def prepared_input_def sample_component_def Let_def)

lemma sample_outcome:
  assumes "length (array_or_empty h) < 3"
  shows "\<exists>p. predictMaintenance sample_env sample_maintenance_model (sample_input h) =
     (sample_maintenance_model, prepared_input h, Inr p)"
  using derive_sample_Inr by (simp add: sample_predictMaintenance [OF assms])




text \<open>
  Claim C6. In every prediction that \<open>predictMaintenance\<close> returns, the type of maintenance
  is \<open>Emergency\<close> exactly when the risk score or the urgency factor (the first and the
  fifth component of the raw output) exceeds 0.9, otherwise \<open>Corrective\<close> exactly when the
  risk score exceeds 0.6, otherwise \<open>Preventive\<close>. With the urgency and the input fixed, a
  prediction derived from a risk score that is not smaller has a type other than
  \<open>Preventive\<close> whenever this one has.
\<close>

theorem maintenanceType_thresholds:
  assumes "predictMaintenance env this input = (this1, input1, Inr p)"
  shows "\<exists>res r u.
     predict (maintenance_preprocessInput (t_preprocess env)) (t_predict env) this1 input
       = Inr (res, input1)
     \<and> output_at (prediction res) 0 = Fin r \<and> output_at (prediction res) 4 = Fin u
     \<and> riskScore p = Fin r
     \<and> maintenanceType p =
         (if 0.9 < r \<or> 0.9 < u then Emergency else if 0.6 < r then Corrective else Preventive)
     \<and> (\<forall>r' conf d c dt p'.
           r \<le> r' \<and> maintenanceType p \<noteq> Preventive
           \<and> derive_prediction env input1 conf (Fin r') d c dt (Fin u) = Inr p'
           \<longrightarrow> maintenanceType p' \<noteq> Preventive)"
proof -
  obtain res r d c dt u where
    pr: "predict (maintenance_preprocessInput (t_preprocess env)) (t_predict env) this1 input
           = Inr (res, input1)"
    and raw: "prediction res = [Fin r, Fin d, Fin c, Fin dt, Fin u]"
    and dv: "derive_prediction env input1 (confidence res) (Fin r) (Fin d) (Fin c) (Fin dt) (Fin u) = Inr p"
    using predictMaintenance_Inr [OF assms] by blast
  have t: "maintenanceType p =
         (if 0.9 < r \<or> 0.9 < u then Emergency else if 0.6 < r then Corrective else Preventive)"
    and rk: "riskScore p = Fin r"
    using derive_type [OF dv] by (simp_all add: select_maintenanceType_Fin)
  have mono: "maintenanceType p' \<noteq> Preventive"
    if "r \<le> r'" "maintenanceType p \<noteq> Preventive"
      "derive_prediction env input1 conf (Fin r') d' c' dt' (Fin u) = Inr p'"
    for r' conf d' c' dt' p'
  proof -
    have "maintenanceType p' =
         (if 0.9 < r' \<or> 0.9 < u then Emergency else if 0.6 < r' then Corrective else Preventive)"
      using derive_type [OF that(3)] by (simp add: select_maintenanceType_Fin)
    then show ?thesis using that(1,2) t by (auto split: if_splits)
  qed
  show ?thesis
    using pr raw t rk mono by (auto simp: output_at_5 simp del: One_nat_def)
qed

theorem maintenanceType_thresholds_witness:
  "\<exists>p. outcome (predictMaintenance sample_env sample_maintenance_model (sample_input None)) = Inr p
       \<and> riskScore p = Fin (sigmoid 10) \<and> maintenanceType p = Emergency"
proof -
  have len: "length (array_or_empty (None :: MaintenanceEvent list option)) < 3"
    by (simp add: array_or_empty_def)
  obtain p where e: "predictMaintenance sample_env sample_maintenance_model (sample_input None) =
     (sample_maintenance_model, prepared_input None, Inr p)"
    using sample_outcome [OF len] by blast
  obtain res r u where
    pr: "predict (maintenance_preprocessInput (t_preprocess sample_env)) (t_predict sample_env)
           sample_maintenance_model (sample_input None) = Inr (res, prepared_input None)"
    and o: "output_at (prediction res) 0 = Fin r" "output_at (prediction res) 4 = Fin u"
    and rk: "riskScore p = Fin r"
    and t: "maintenanceType p =
         (if 0.9 < r \<or> 0.9 < u then Emergency else if 0.6 < r then Corrective else Preventive)"
    using maintenanceType_thresholds [OF e] by blast
  have "prediction res = sample_raw"
    using pr by (auto simp: sample_predict [OF len])
  then have "r = sigmoid 10"
    using o(1) by (simp add: sample_raw_def output_at_def)
  then show ?thesis using rk t sigmoid_10 by (simp add: e outcome_def)
qed




section \<open>The input record after preprocessing\<close>



section \<open>What the service records as confidence\<close>

lemma route_preprocess_same: "route_preprocessInput month data = Inr (fs, d) \<Longrightarrow> d = data"
  by (auto simp: route_preprocessInput_def Let_def)

lemma fuel_preprocess_same: "fuel_preprocessInput data = Inr (fs, d) \<Longrightarrow> d = data"
  by (auto simp: fuel_preprocessInput_def Let_def)

lemma predict_confidence:
  "predict pre now this x = Inr (res, x') \<Longrightarrow> confidence res = calculateConfidence (prediction res)"
  using predict_Inr by fastforce

lemma optimizeRoute_Inr:
  assumes "optimizeRoute env this input = Inr opt"
  shows "\<exists>res. predict (route_preprocessInput (r_month env)) (r_now env) this input = Inr (res, input)
               \<and> weatherRiskScore opt = output_at (prediction res) 2"
proof -
  from assms obtain res d where
    pr: "predict (route_preprocessInput (r_month env)) (r_now env) this input = Inr (res, d)"
    by (auto simp: optimizeRoute_def split: sum.splits)
  then obtain fs where "route_preprocessInput (r_month env) input = Inr (fs, d)"
    using predict_Inr [OF pr] by blast
  then have d: "d = input" by (rule route_preprocess_same)
  from assms pr have "weatherRiskScore opt = output_at (prediction res) 2"
    by (auto simp: optimizeRoute_def Let_def)
  then show ?thesis using pr d by blast
qed

lemma predictFuelConsumption_Inr:
  assumes "predictFuelConsumption t this input = Inr fp"
  shows "\<exists>res. predict fuel_preprocessInput t this input = Inr (res, input)
               \<and> fp_confidence fp = confidence res"
proof -
  from assms obtain res d where
    pr: "predict fuel_preprocessInput t this input = Inr (res, d)"
    by (auto simp: predictFuelConsumption_def split: sum.splits)
  then obtain fs where "fuel_preprocessInput input = Inr (fs, d)"
    using predict_Inr [OF pr] by blast
  then have d: "d = input" by (rule fuel_preprocess_same)
  from assms pr have "fp_confidence fp = confidence res"
    by (auto simp: predictFuelConsumption_def Let_def)
  then show ?thesis using pr d by blast
qed

lemma recordPrediction_entry:
  "predictionHistory (recordPrediction name conf ok now s) =
     slice_last 1000 (predictionHistory s @
       [\<lparr>h_modelName = name, h_timestamp = now, h_confidence = conf, h_success = ok\<rparr>])"
  by (simp add: recordPrediction_def Let_def slice_last_def)

lemma recordPrediction_models:
  "routeOptimizer (recordPrediction name conf ok now s) = routeOptimizer s"
  "fuelPredictor (recordPrediction name conf ok now s) = fuelPredictor s"
  "maintenanceForecaster (recordPrediction name conf ok now s) = maintenanceForecaster s"
  by (simp_all add: recordPrediction_def Let_def)

lemma sample_route_predict:
  "predict (route_preprocessInput m) t sample_route_model sample_route_input =
     Inr (\<lparr>prediction = [Fin (1 / 2), Fin (1 / 2), Fin (1 / 2), Fin (1 / 2)],
           confidence = Fin 1, modelVersion = ''1.0.0'', timestamp = t\<rparr>, sample_route_input)"
proof -
  obtain fs where fs: "route_preprocessInput m sample_route_input = Inr (fs, sample_route_input)"
    "list_all is_fin fs"
    by (simp add: route_preprocessInput_def Let_def sample_route_input_def bool_num_def)
  have ml: "model sample_route_model = Some (compile 0.001 (route_buildModel route_zero_kernels))"
    "isLoaded sample_route_model" "version (config sample_route_model) = ''1.0.0''"
    by (simp_all add: sample_route_model_def route_config_def)
  have ly: "layers (compile r (route_buildModel route_zero_kernels))
       = butlast (layers (route_buildModel route_zero_kernels))
         @ [DenseL (replicate 4 (replicate 16 0, 0)) Sigmoid]" for r
    by (simp add: compile_def route_buildModel_def route_zero_kernels_def fresh_dense_zero)
  have fw: "forward (layers (compile r (route_buildModel route_zero_kernels))) x
       = [1 / 2, 1 / 2, 1 / 2, 1 / 2]" for r x
    by (simp only: ly forward_last_zero_kernel) (simp add: eval_nat_numeral sigmoid_0)
  have cf: "calculateConfidence [Fin (1 / 2), Fin (1 / 2), Fin (1 / 2), Fin (1 / 2)] = Fin 1"
    by (simp add: calculateConfidence_def Math_max_def Math_min_def jsub_def)
  show ?thesis
    by (simp add: predict_loaded [where pre = "route_preprocessInput m"
          and x = sample_route_input, OF fs ml(1,2)] fw cf ml(3))
qed

text \<open>
  Claim C9. After a call of \<open>optimizeRoute\<close> of the service that returns, the entry
  appended to the history has, as its confidence, the weather risk score returned, which
  is the third component of the raw output of the model, not the confidence that
  \<open>predict\<close> computed. After a call of \<open>predictFuelConsumption\<close> or \<open>predictMaintenance\<close> that
  returns, the entry has the confidence of the prediction, computed by
  \<open>calculateConfidence\<close> from the raw output.
\<close>

theorem history_confidence_source:
  "(service_optimizeRoute env now input this = (this1, Inr opt) \<longrightarrow>
      (\<exists>res. predict (route_preprocessInput (r_month env)) (r_now env) (routeOptimizer this) input
                = Inr (res, input)
            \<and> weatherRiskScore opt = output_at (prediction res) 2
            \<and> predictionHistory this1 =
                slice_last 1000 (predictionHistory this @
                  [\<lparr>h_modelName = ''route-optimizer'', h_timestamp = now,
                    h_confidence = output_at (prediction res) 2, h_success = True\<rparr>])))
   \<and> (service_predictFuelConsumption t now2 finput this = (this2, Inr fp) \<longrightarrow>
      (\<exists>res. predict fuel_preprocessInput t (fuelPredictor this) finput = Inr (res, finput)
            \<and> predictionHistory this2 =
                slice_last 1000 (predictionHistory this @
                  [\<lparr>h_modelName = ''fuel-predictor'', h_timestamp = now2,
                    h_confidence = calculateConfidence (prediction res), h_success = True\<rparr>])))
   \<and> (service_predictMaintenance menv now3 minput this = (this3, minput1, Inr mp) \<longrightarrow>
      (\<exists>res. predict (maintenance_preprocessInput (t_preprocess menv)) (t_predict menv)
                (maintenanceForecaster this3) minput = Inr (res, minput1)
            \<and> predictionHistory this3 =
                slice_last 1000 (predictionHistory this @
                  [\<lparr>h_modelName = ''maintenance-forecaster'', h_timestamp = now3,
                    h_confidence = calculateConfidence (prediction res), h_success = True\<rparr>])))"
proof (intro conjI impI)
  assume a: "service_optimizeRoute env now input this = (this1, Inr opt)"
  then have o: "optimizeRoute env (routeOptimizer this) input = Inr opt"
    and s: "this1 = recordPrediction ''route-optimizer'' (weatherRiskScore opt) True now this"
    by (auto simp: service_optimizeRoute_def split: sum.splits)
  from optimizeRoute_Inr [OF o] s
  show "\<exists>res. predict (route_preprocessInput (r_month env)) (r_now env) (routeOptimizer this) input
                = Inr (res, input)
            \<and> weatherRiskScore opt = output_at (prediction res) 2
            \<and> predictionHistory this1 =
                slice_last 1000 (predictionHistory this @
                  [\<lparr>h_modelName = ''route-optimizer'', h_timestamp = now,
                    h_confidence = output_at (prediction res) 2, h_success = True\<rparr>])"
    by (auto simp: recordPrediction_entry)
next
  assume a: "service_predictFuelConsumption t now2 finput this = (this2, Inr fp)"
  then have o: "predictFuelConsumption t (fuelPredictor this) finput = Inr fp"
    and s: "this2 = recordPrediction ''fuel-predictor'' (fp_confidence fp) True now2 this"
    by (auto simp: service_predictFuelConsumption_def split: sum.splits)
  obtain res where pr: "predict fuel_preprocessInput t (fuelPredictor this) finput = Inr (res, finput)"
    and fc: "fp_confidence fp = confidence res"
    using predictFuelConsumption_Inr [OF o] by blast
  have c: "confidence res = calculateConfidence (prediction res)"
    by (rule predict_confidence [OF pr])
  show "\<exists>res. predict fuel_preprocessInput t (fuelPredictor this) finput = Inr (res, finput)
            \<and> predictionHistory this2 =
                slice_last 1000 (predictionHistory this @
                  [\<lparr>h_modelName = ''fuel-predictor'', h_timestamp = now2,
                    h_confidence = calculateConfidence (prediction res), h_success = True\<rparr>])"
    using pr by (auto simp: s fc c recordPrediction_entry)
next
  assume a: "service_predictMaintenance menv now3 minput this = (this3, minput1, Inr mp)"
  then obtain forecaster where
    o: "predictMaintenance menv (maintenanceForecaster this) minput = (forecaster, minput1, Inr mp)"
    and s: "this3 = recordPrediction ''maintenance-forecaster'' (mp_confidence mp) True now3
                      (this\<lparr>maintenanceForecaster := forecaster\<rparr>)"
    by (auto simp: service_predictMaintenance_def split: prod.splits sum.splits)
  obtain res r d c dt u where
    pr: "predict (maintenance_preprocessInput (t_preprocess menv)) (t_predict menv) forecaster minput
           = Inr (res, minput1)"
    and dv: "derive_prediction menv minput1 (confidence res) (Fin r) (Fin d) (Fin c) (Fin dt) (Fin u)
               = Inr mp"
    using predictMaintenance_Inr [OF o] by blast
  have c: "mp_confidence mp = calculateConfidence (prediction res)"
    using derive_type [OF dv] predict_confidence [OF pr] by simp
  show "\<exists>res. predict (maintenance_preprocessInput (t_preprocess menv)) (t_predict menv)
                (maintenanceForecaster this3) minput = Inr (res, minput1)
            \<and> predictionHistory this3 =
                slice_last 1000 (predictionHistory this @
                  [\<lparr>h_modelName = ''maintenance-forecaster'', h_timestamp = now3,
                    h_confidence = calculateConfidence (prediction res), h_success = True\<rparr>])"
    using pr c by (auto simp: s recordPrediction_entry recordPrediction_models)
qed

theorem history_confidence_source_witness:
  "(\<exists>s opt. service_optimizeRoute sample_route_env 5 sample_route_input sample_service = (s, Inr opt)
      \<and> weatherRiskScore opt = Fin (1 / 2)
      \<and> map h_confidence (predictionHistory s) = [Fin (1 / 2)]
      \<and> confidence_of (predict (route_preprocessInput 0) 1000 sample_route_model sample_route_input)
          = Some (Fin 1))
   \<and> (\<exists>s fp. service_predictFuelConsumption 6 7 sample_fuel_input sample_service = (s, Inr fp)
      \<and> map h_confidence (predictionHistory s) = [Fin 1]
      \<and> confidence_of (predict fuel_preprocessInput 6 offset_fuel_model sample_fuel_input)
          = Some (Fin 1))
   \<and> (\<exists>s mp. service_predictMaintenance sample_env 8 (sample_input None) sample_service
                = (s, prepared_input None, Inr mp)
      \<and> map h_confidence (predictionHistory s) = [calculateConfidence sample_raw]
      \<and> confidence_of (predict (maintenance_preprocessInput 1000) 1001 sample_maintenance_model
                         (sample_input None))
          = Some (calculateConfidence sample_raw))"
proof -
  have ro: "routeOptimizer sample_service = sample_route_model"
    and fu: "fuelPredictor sample_service = offset_fuel_model"
    and ma: "maintenanceForecaster sample_service = sample_maintenance_model"
    and h0: "predictionHistory sample_service = []"
    by (simp_all add: sample_service_def)
  have pr: "predict (route_preprocessInput (r_month sample_route_env)) (r_now sample_route_env)
              sample_route_model sample_route_input =
     Inr (\<lparr>prediction = [Fin (1 / 2), Fin (1 / 2), Fin (1 / 2), Fin (1 / 2)],
           confidence = Fin 1, modelVersion = ''1.0.0'', timestamp = r_now sample_route_env\<rparr>,
          sample_route_input)"
    by (rule sample_route_predict)
  obtain s opt where
    e: "service_optimizeRoute sample_route_env 5 sample_route_input sample_service = (s, Inr opt)"
    by (simp add: service_optimizeRoute_def optimizeRoute_def ro pr Let_def)
  obtain s2 fp where
    e2: "service_predictFuelConsumption 6 7 sample_fuel_input sample_service = (s2, Inr fp)"
    by (simp add: service_predictFuelConsumption_def predictFuelConsumption_def fu
        offset_fuel_predict Let_def)
  have len: "length (array_or_empty (None :: MaintenanceEvent list option)) < 3"
    by (simp add: array_or_empty_def)
  obtain mp where pm: "predictMaintenance sample_env sample_maintenance_model (sample_input None) =
     (sample_maintenance_model, prepared_input None, Inr mp)"
    using sample_outcome [OF len] by blast
  obtain s3 where
    e3: "service_predictMaintenance sample_env 8 (sample_input None) sample_service
           = (s3, prepared_input None, Inr mp)"
    by (simp add: service_predictMaintenance_def ma pm)
  note hcs = history_confidence_source [of sample_route_env 5 sample_route_input sample_service s opt
      6 7 sample_fuel_input s2 fp sample_env 8 "sample_input None" s3 "prepared_input None" mp]
  from hcs e obtain res where
    p: "predict (route_preprocessInput (r_month sample_route_env)) (r_now sample_route_env)
          (routeOptimizer sample_service) sample_route_input = Inr (res, sample_route_input)"
    and w: "weatherRiskScore opt = output_at (prediction res) 2"
    and h: "predictionHistory s =
                slice_last 1000 (predictionHistory sample_service @
                  [\<lparr>h_modelName = ''route-optimizer'', h_timestamp = 5,
                    h_confidence = output_at (prediction res) 2, h_success = True\<rparr>])"
    by blast
  have "prediction res = [Fin (1 / 2), Fin (1 / 2), Fin (1 / 2), Fin (1 / 2)]"
    using p by (auto simp: ro pr)
  then have o: "output_at (prediction res) 2 = Fin (1 / 2)" by (simp add: output_at_def)
  have c: "confidence_of (predict (route_preprocessInput 0) 1000 sample_route_model sample_route_input)
          = Some (Fin 1)"
    by (simp add: sample_route_predict confidence_of_def)
  have route: "\<exists>s opt. service_optimizeRoute sample_route_env 5 sample_route_input sample_service = (s, Inr opt)
      \<and> weatherRiskScore opt = Fin (1 / 2)
      \<and> map h_confidence (predictionHistory s) = [Fin (1 / 2)]
      \<and> confidence_of (predict (route_preprocessInput 0) 1000 sample_route_model sample_route_input)
          = Some (Fin 1)"
    using e w h o c by (simp add: h0 slice_last_def)
  from hcs e2 obtain res2 where
    p2: "predict fuel_preprocessInput 6 (fuelPredictor sample_service) sample_fuel_input
           = Inr (res2, sample_fuel_input)"
    and h2: "predictionHistory s2 =
                slice_last 1000 (predictionHistory sample_service @
                  [\<lparr>h_modelName = ''fuel-predictor'', h_timestamp = 7,
                    h_confidence = calculateConfidence (prediction res2), h_success = True\<rparr>])"
    by blast
  have r2: "prediction res2 = [Fin 2, Fin 2, Fin 2]"
    using p2 by (auto simp: fu offset_fuel_predict)
  have cf: "calculateConfidence [Fin 2, Fin 2, Fin 2] = Fin 1"
    by (simp add: calculateConfidence_def Math_max_def Math_min_def jsub_def)
  have fuel: "\<exists>s fp. service_predictFuelConsumption 6 7 sample_fuel_input sample_service = (s, Inr fp)
      \<and> map h_confidence (predictionHistory s) = [Fin 1]
      \<and> confidence_of (predict fuel_preprocessInput 6 offset_fuel_model sample_fuel_input)
          = Some (Fin 1)"
    using e2 h2 by (simp add: r2 cf h0 slice_last_def offset_fuel_predict confidence_of_def)
  from hcs e3 obtain res3 where
    p3: "predict (maintenance_preprocessInput (t_preprocess sample_env)) (t_predict sample_env)
                (maintenanceForecaster s3) (sample_input None) = Inr (res3, prepared_input None)"
    and h3: "predictionHistory s3 =
                slice_last 1000 (predictionHistory sample_service @
                  [\<lparr>h_modelName = ''maintenance-forecaster'', h_timestamp = 8,
                    h_confidence = calculateConfidence (prediction res3), h_success = True\<rparr>])"
    by blast
  have m3: "maintenanceForecaster s3 = sample_maintenance_model"
    using e3 by (auto simp: service_predictMaintenance_def ma pm recordPrediction_models)
  have r3: "prediction res3 = sample_raw"
    using p3 by (auto simp: m3 sample_predict [OF len])
  have maint: "\<exists>s mp. service_predictMaintenance sample_env 8 (sample_input None) sample_service
                = (s, prepared_input None, Inr mp)
      \<and> map h_confidence (predictionHistory s) = [calculateConfidence sample_raw]
      \<and> confidence_of (predict (maintenance_preprocessInput 1000) 1001 sample_maintenance_model
                         (sample_input None))
          = Some (calculateConfidence sample_raw)"
    using e3 h3 by (simp add: r3 h0 slice_last_def sample_predict [OF len] confidence_of_def)
  show ?thesis using route fuel maint by blast
qed

section \<open>Fleet health\<close>

















end
